theory Spec2Isabelle
  imports Complex_Main "HOL-Library.Sublist" "HOL-Library.Log_Nat"
begin

section \<open>Delhi OTD traffic and emissions monitor: \<open>traffic_data/fetch_traffic_data.py\<close>\<close>

text \<open>
  The script fetches one vehicle-positions feed, validates each vehicle, estimates its
  emissions, removes duplicates and writes three CSV files. The model follows the
  source function by function. Conventions:
  \<^item> A Python float is modelled by the \<open>real\<close> number it denotes; there is no NaN or
    infinity. A product or quotient of floats is the exact result rounded to the
    nearest double, ties to even (\<open>fl\<close>). \<open>round(x, n)\<close> rounds the exact value of
    \<open>x\<close> to \<open>n\<close> decimals, ties to even; the model keeps that decimal, which is what the
    double nearest to it prints as. Comparisons use the constants as they are written.
  \<^item> A protobuf message field that may be absent is an \<open>option\<close>; \<open>HasField\<close> is the
    test for \<open>Some\<close>.
  \<^item> An exception is a value of \<open>py_exn\<close>; a function that may raise returns
    \<open>py_exn + 'a\<close>. \<open>sys.exit(n)\<close> is the outcome \<open>Exit n\<close>.
  \<^item> The network, the protobuf parser, the clock and the success of each file
    operation are inputs of the run, collected in the record \<open>env\<close>.
\<close>

subsection \<open>Numbers\<close>

definition round_half_even :: "real \<Rightarrow> int" where
  "round_half_even x =
     (let f = \<lfloor>x\<rfloor>; d = x - of_int f
      in if d < 1 / 2 then f else if 1 / 2 < d then f + 1 else if even f then f else f + 1)"

text \<open>Python's \<open>round(x, ndigits)\<close> on a float.\<close>

definition py_round :: "real \<Rightarrow> nat \<Rightarrow> real" where
  "py_round x ndigits = of_int (round_half_even (x * 10 ^ ndigits)) / 10 ^ ndigits"

text \<open>
  IEEE 754 binary64. \<open>binade x\<close> is the exponent \<open>e\<close> with \<open>2 ^ e \<le> x < 2 ^ (e + 1)\<close>
  for \<open>x > 0\<close>; \<open>ulp x\<close> is the distance between neighbouring doubles at \<open>x\<close> (53
  significant bits, least exponent -1022); \<open>fl x\<close> is the double nearest to \<open>x\<close>.
  No value of the script comes near the largest double.
\<close>

definition binade :: "real \<Rightarrow> int" where
  "binade x = (if 1 \<le> x then bitlen \<lfloor>x\<rfloor> - 1 else - bitlen (\<lceil>1 / x\<rceil> - 1))"

definition ulp :: "real \<Rightarrow> real" where
  "ulp x = (let e = max (binade \<bar>x\<bar>) (- 1022) - 52
            in if 0 \<le> e then 2 ^ nat e else 1 / 2 ^ nat (- e))"

definition fl :: "real \<Rightarrow> real" where
  "fl x = (if x = 0 then 0 else of_int (round_half_even (x / ulp x)) * ulp x)"

text \<open>\<open>a * b\<close> and \<open>a / b\<close> on floats.\<close>

definition fmul :: "real \<Rightarrow> real \<Rightarrow> real" where
  "fmul a b = fl (a * b)"

definition fdiv :: "real \<Rightarrow> real \<Rightarrow> real" where
  "fdiv a b = fl (a / b)"

subsection \<open>Configuration\<close>

text \<open>The dictionary \<open>EMISSION_FACTORS\<close> in its insertion order (g/km).\<close>

definition EMISSION_FACTORS :: "(string \<times> real) list" where
  "EMISSION_FACTORS = [(''CO'', 6.0), (''NOx'', 8.0), (''PM2.5'', 0.5), (''CO2'', 1100.0)]"

definition SPEED_MAX_M_S :: real where
  "SPEED_MAX_M_S = 30.0"

definition LAT_MIN :: real where
  "LAT_MIN = 28.5"

definition LAT_MAX :: real where
  "LAT_MAX = 28.8"

definition LON_MIN :: real where
  "LON_MIN = 77.0"

definition LON_MAX :: real where
  "LON_MAX = 77.4"

definition validate_location :: "real \<Rightarrow> real \<Rightarrow> bool" where
  "validate_location lat lon \<longleftrightarrow> (LAT_MIN \<le> lat \<and> lat \<le> LAT_MAX) \<and> (LON_MIN \<le> lon \<and> lon \<le> LON_MAX)"

definition validate_speed :: "real \<Rightarrow> bool" where
  "validate_speed speed \<longleftrightarrow> 0.0 \<le> speed \<and> speed \<le> SPEED_MAX_M_S"

subsection \<open>The decoded feed\<close>

text \<open>
  A GTFS-realtime feed entity: \<open>entity.id\<close> and \<open>entity.vehicle\<close>, a \<open>VehiclePosition\<close>
  message \<open>v\<close> with \<open>v.position\<close>, \<open>v.timestamp\<close> and the descriptor \<open>v.vehicle\<close>, whose
  \<open>id\<close> is the identifier of the vehicle itself (\<open>descriptor_id\<close>, \<open>None\<close> when the feed
  gives none). \<open>speed\<close> is \<open>None\<close> when \<open>getattr(v.position, "speed", 0.0)\<close> finds
  nothing. A string that is not set reads as the empty string.
\<close>

record position =
  latitude :: real
  longitude :: real
  speed :: "real option"

record vehicle =
  descriptor_id :: "string option"
  position :: "position option"
  timestamp :: "int option"

record entity =
  entity_id :: string
  vehicle :: "vehicle option"

subsection \<open>Exceptions and the conversion of the timestamp\<close>

datatype py_exn = ValueError | OSError | OverflowError

text \<open>
  \<open>datetime.fromtimestamp(t, timezone.utc)\<close> for an integer \<open>t\<close>, as CPython documents
  and implements it: \<open>OverflowError\<close> when \<open>t\<close> does not fit the platform's \<open>time_t\<close>
  (a signed 64-bit integer), \<open>OSError\<close> when the C function \<open>gmtime\<close> fails, and
  \<open>ValueError\<close> when the year is outside 1..9999. Which of the last two a large \<open>t\<close>
  inside \<open>time_t\<close> raises depends on the C library; \<open>GMTIME_MAX\<close> is the bound of
  \<open>gmtime\<close> (here the largest \<open>t\<close> whose year fits a C \<open>int\<close>). The instant that results
  is kept as its number of seconds since the epoch.
\<close>

definition TIME_T_MAX :: int where
  "TIME_T_MAX = 2 ^ 63 - 1"

definition GMTIME_MAX :: int where
  "GMTIME_MAX = 67767976233532799"

definition DATETIME_MIN :: int where
  "DATETIME_MIN = - 62135596800"

definition DATETIME_MAX :: int where
  "DATETIME_MAX = 253402300799"

definition fromtimestamp :: "int \<Rightarrow> py_exn + int" where
  "fromtimestamp t =
     (if t < - TIME_T_MAX - 1 \<or> TIME_T_MAX < t then Inl OverflowError
      else if t < - GMTIME_MAX \<or> GMTIME_MAX < t then Inl OSError
      else if t < DATETIME_MIN \<or> DATETIME_MAX < t then Inl ValueError
      else Inr t)"

text \<open>
  \<open>ts.astimezone()\<close> for a UTC instant \<open>ts\<close>: the local zone is an input, given as the
  offset from UTC in seconds that it has at each instant. The local date and time must
  lie in the years 1..9999 again, or \<open>OverflowError\<close> is raised. \<open>isoformat()\<close> then
  writes the local date and time with the offset; that text and the instant determine
  each other, and the model keeps the instant.
\<close>

definition astimezone :: "(int \<Rightarrow> int) \<Rightarrow> int \<Rightarrow> py_exn + int" where
  "astimezone utcoffset ts =
     (if ts + utcoffset ts < DATETIME_MIN \<or> DATETIME_MAX < ts + utcoffset ts
      then Inl OverflowError
      else Inr ts)"

subsection \<open>Rows of the data frame\<close>

text \<open>
  One dictionary appended to \<open>rows\<close>. The column \<open>timestamp\<close> holds
  \<open>ts.astimezone().isoformat()\<close>, kept as the instant. The pollutant columns are the
  items of the dictionary \<open>emissions\<close>, in the order of \<open>EMISSION_FACTORS\<close>.
\<close>

record row =
  vehicle_id :: string
  row_timestamp :: int
  row_latitude :: real
  row_longitude :: real
  speed_m_s :: real
  emissions :: "(string \<times> real) list"

text \<open>\<open>row[p]\<close> for a pollutant column \<open>p\<close>.\<close>

definition pollutant :: "row \<Rightarrow> string \<Rightarrow> real option" where
  "pollutant r p = map_of (emissions r) p"

subsection \<open>\<open>process_vehicles\<close>\<close>

text \<open>
  \<open>getattr(v, "id", None)\<close>: a \<open>VehiclePosition\<close> message has no attribute \<open>id\<close>, so
  the default is returned whatever the message holds.
\<close>

definition getattr_id :: "vehicle \<Rightarrow> string option" where
  "getattr_id v = None"

text \<open>\<open>v_id or e_id or "unknown"\<close>, where \<open>None\<close> and the empty string are false.\<close>

definition resolve_vehicle_id :: "string option \<Rightarrow> string \<Rightarrow> string" where
  "resolve_vehicle_id v_id e_id =
     (case v_id of
        Some s \<Rightarrow> if s \<noteq> [] then s else if e_id \<noteq> [] then e_id else ''unknown''
      | None \<Rightarrow> if e_id \<noteq> [] then e_id else ''unknown'')"

text \<open>\<open>getattr(v.position, "speed", 0.0)\<close>\<close>

definition getattr_speed :: "position \<Rightarrow> real" where
  "getattr_speed p = (case speed p of None \<Rightarrow> 0.0 | Some s \<Rightarrow> s)"

text \<open>\<open>distance_km = (speed * 3.6) / 60.0\<close>, with the float nearest to 3.6.\<close>

definition distance_km :: "real \<Rightarrow> real" where
  "distance_km spd = fdiv (fmul spd (fl 3.6)) 60.0"

text \<open>
  The body of the loop for one entity. \<open>Inr None\<close> is \<open>skipped += 1; continue\<close>,
  \<open>Inr (Some r)\<close> is \<open>rows.append(r)\<close>, \<open>Inl e\<close> is an exception that leaves the loop.
  Reading \<open>entity.vehicle\<close> of an entity without a vehicle gives an empty message,
  which has no position. The \<open>except\<close> clause catches \<open>ValueError\<close> and \<open>OSError\<close> only,
  and \<open>ts.astimezone()\<close> is evaluated after it, outside the \<open>try\<close>.
\<close>

definition process_entity :: "(int \<Rightarrow> int) \<Rightarrow> entity \<Rightarrow> py_exn + row option" where
  "process_entity utcoffset e =
     (case vehicle e of
        None \<Rightarrow> Inr None
      | Some v \<Rightarrow>
          (case position v of
             None \<Rightarrow> Inr None
           | Some p \<Rightarrow>
               (case timestamp v of
                  None \<Rightarrow> Inr None
                | Some t \<Rightarrow>
                    (let lat = latitude p; lon = longitude p; spd = getattr_speed p
                     in if \<not> validate_location lat lon then Inr None
                        else if \<not> validate_speed spd then Inr None
                        else
                          (case fromtimestamp t of
                             Inl ValueError \<Rightarrow> Inr None
                           | Inl OSError \<Rightarrow> Inr None
                           | Inl OverflowError \<Rightarrow> Inl OverflowError
                           | Inr ts \<Rightarrow>
                               (let vid = resolve_vehicle_id (getattr_id v) (entity_id e);
                                    ems = map (\<lambda>(p, f). (p, py_round (fmul f (distance_km spd)) 2))
                                            EMISSION_FACTORS
                                in case astimezone utcoffset ts of
                                     Inl x \<Rightarrow> Inl x
                                   | Inr stamp \<Rightarrow>
                                       Inr (Some \<lparr>vehicle_id = vid, row_timestamp = stamp,
                                         row_latitude = py_round lat 6,
                                         row_longitude = py_round lon 6,
                                         speed_m_s = py_round spd 2,
                                         emissions = ems\<rparr>)))))))"

text \<open>The loop, with the list \<open>rows\<close> and the counter \<open>skipped\<close> as it runs.\<close>

fun process_loop ::
  "(int \<Rightarrow> int) \<Rightarrow> entity list \<Rightarrow> row list \<Rightarrow> nat \<Rightarrow> py_exn + (row list \<times> nat)" where
  "process_loop utcoffset [] rows skipped = Inr (rows, skipped)"
| "process_loop utcoffset (e # es) rows skipped =
     (case process_entity utcoffset e of
        Inl x \<Rightarrow> Inl x
      | Inr None \<Rightarrow> process_loop utcoffset es rows (skipped + 1)
      | Inr (Some r) \<Rightarrow> process_loop utcoffset es (rows @ [r]) skipped)"

text \<open>
  \<open>df.drop_duplicates(subset=["vehicle_id", "timestamp"], keep="first")\<close>: a row is
  dropped when its key was seen on an earlier row. An empty frame stays empty.
\<close>

definition dedup_key :: "row \<Rightarrow> string \<times> int" where
  "dedup_key r = (vehicle_id r, row_timestamp r)"

fun drop_duplicates_seen :: "(string \<times> int) list \<Rightarrow> row list \<Rightarrow> row list" where
  "drop_duplicates_seen seen [] = []"
| "drop_duplicates_seen seen (r # rs) =
     (if dedup_key r \<in> set seen then drop_duplicates_seen seen rs
      else r # drop_duplicates_seen (dedup_key r # seen) rs)"

definition drop_duplicates :: "row list \<Rightarrow> row list" where
  "drop_duplicates rows = drop_duplicates_seen [] rows"

text \<open>
  The function returns the data frame; the counter \<open>skipped\<close>, which it logs, is
  returned with it.
\<close>

definition process_vehicles ::
  "(int \<Rightarrow> int) \<Rightarrow> entity list \<Rightarrow> py_exn + (row list \<times> nat)" where
  "process_vehicles utcoffset entities =
     (case process_loop utcoffset entities [] 0 of
        Inl x \<Rightarrow> Inl x
      | Inr (rows, skipped) \<Rightarrow> Inr (drop_duplicates rows, skipped))"

subsection \<open>The run's inputs, its files and what it does\<close>

text \<open>
  The result of one \<open>requests.get\<close> followed by \<open>raise_for_status\<close>: the body of the
  response, the exception \<open>requests.Timeout\<close>, or another \<open>requests.RequestException\<close>.
\<close>

datatype http_result = Response string | Timeout | RequestException

text \<open>
  \<open>http_get n\<close> is the result of the request of attempt \<open>n\<close> (from 0).
  \<open>parse_feed\<close> is \<open>FeedMessage.ParseFromString\<close> followed by reading \<open>feed.entity\<close>;
  \<open>None\<close> when it raises. The three flags say whether the file operation of the
  function succeeds; a file operation that fails is taken to leave its file as it was.
  \<open>now_count\<close> and \<open>now_summary\<close> are the two readings of \<open>datetime.now().isoformat()\<close>.
  \<open>utcoffset\<close> is the local zone of the process.
\<close>

record env =
  http_get :: "nat \<Rightarrow> http_result"
  parse_feed :: "string \<Rightarrow> entity list option"
  raw_write_ok :: bool
  count_append_ok :: bool
  summary_write_ok :: bool
  now_count :: string
  now_summary :: string
  utcoffset :: "int \<Rightarrow> int"

datatype count_line = CountHeader | CountRow string nat

record summary =
  summary_timestamp :: string
  summary_vehicle_count :: nat
  CO_total_g :: real
  NOx_total_g :: real
  PM2_5_total_g :: real
  CO2_total_g :: real

datatype summary_line = SummaryHeader | SummaryRow summary

text \<open>The three output files; \<open>None\<close> is a file that does not exist.\<close>

record stores =
  raw_traffic_emissions :: "row list option"
  vehicle_count_log :: "count_line list option"
  traffic_pollution_summary :: "summary_line list option"

datatype store_name = OUT_RAW | OUT_VEHICLE_COUNT | OUT_POLLUTION_SUMMARY

datatype level = INFO | WARNING | ERROR

text \<open>
  What a run does, in order: a request sent, a call of the logger (the text without
  its interpolated values), a file operation tried and whether it succeeded.
\<close>

datatype event = Request nat | Log level string | Write store_name bool

datatype 'a outcome = Return 'a | Exit nat

subsection \<open>\<open>fetch_traffic_data\<close>\<close>

definition max_retries :: nat where
  "max_retries = 3"

text \<open>
  The \<open>for\<close> loop over \<open>range(max_retries)\<close>. \<open>Return (Some content)\<close> is the
  \<open>break\<close>; \<open>Return None\<close> is the end of the range, where \<open>r\<close> is not bound.
\<close>

fun fetch_loop :: "(nat \<Rightarrow> http_result) \<Rightarrow> nat list \<Rightarrow> string option outcome \<times> event list" where
  "fetch_loop http [] = (Return None, [])"
| "fetch_loop http (attempt # rest) =
     (case http attempt of
        Response content \<Rightarrow>
          (Return (Some content), [Request attempt, Log INFO ''API request successful''])
      | Timeout \<Rightarrow>
          (if attempt = max_retries - 1
           then (Exit 1, [Request attempt, Log WARNING ''Timeout on attempt'',
                          Log ERROR ''Max retries exceeded''])
           else (case fetch_loop http rest of
                   (res, tr) \<Rightarrow> (res, [Request attempt, Log WARNING ''Timeout on attempt''] @ tr)))
      | RequestException \<Rightarrow>
          (Exit 1, [Request attempt, Log ERROR ''OTD API request failed'']))"

text \<open>
  After the loop: parsing (an unbound \<open>r\<close> raises inside the \<open>try\<close> and is reported
  as a parse failure), then the entities that have a vehicle.
\<close>

definition fetch_traffic_data :: "env \<Rightarrow> entity list outcome \<times> event list" where
  "fetch_traffic_data env =
     (case fetch_loop (http_get env) [0..<max_retries] of
        (Exit c, tr) \<Rightarrow> (Exit c, tr)
      | (Return r, tr) \<Rightarrow>
          (case (case r of None \<Rightarrow> None | Some content \<Rightarrow> parse_feed env content) of
             None \<Rightarrow> (Exit 1, tr @ [Log ERROR ''Failed to parse protobuf''])
           | Some feed \<Rightarrow>
               (let entities = filter (\<lambda>e. vehicle e \<noteq> None) feed
                in if entities = []
                   then (Exit 1, tr @ [Log ERROR ''No vehicles found in feed''])
                   else (Return entities, tr @ [Log INFO ''Fetched vehicles from OTD feed'']))))"

subsection \<open>The three writers\<close>

definition save_raw_data :: "env \<Rightarrow> row list \<Rightarrow> stores \<Rightarrow> unit outcome \<times> stores \<times> event list" where
  "save_raw_data env df st =
     (if raw_write_ok env
      then (Return (), st\<lparr>raw_traffic_emissions := Some df\<rparr>,
            [Write OUT_RAW True, Log INFO ''Saved raw traffic + emissions''])
      else (Exit 1, st, [Write OUT_RAW False, Log ERROR ''Failed to save raw data'']))"

text \<open>\<open>df["vehicle_id"].nunique()\<close>\<close>

definition nunique_vehicle_id :: "row list \<Rightarrow> nat" where
  "nunique_vehicle_id df = length (remdups (map vehicle_id df))"

definition log_vehicle_count :: "env \<Rightarrow> row list \<Rightarrow> stores \<Rightarrow> stores \<times> event list" where
  "log_vehicle_count env df st =
     (let vehicle_count = nunique_vehicle_id df
      in if count_append_ok env
         then (let old = (case vehicle_count_log st of None \<Rightarrow> [CountHeader] | Some ls \<Rightarrow> ls)
               in (st\<lparr>vehicle_count_log := Some (old @ [CountRow (now_count env) vehicle_count])\<rparr>,
                   [Write OUT_VEHICLE_COUNT True, Log INFO ''Logged vehicle count'']))
         else (st, [Write OUT_VEHICLE_COUNT False, Log ERROR ''Failed to log vehicle count'']))"

text \<open>
  The sum of one pollutant column; \<open>None\<close> when a row lacks the column, which raises
  \<open>KeyError\<close> inside the \<open>try\<close> of \<open>save_pollution_summary\<close>. The model adds the
  decimals of the column exactly; pandas adds the floats in an order of its own, so a
  total of the code can differ from the model's in its last digit. No property below
  says what a total is.
\<close>

fun column_sum :: "string \<Rightarrow> row list \<Rightarrow> real option" where
  "column_sum p [] = Some 0"
| "column_sum p (r # rs) =
     (case pollutant r p of
        None \<Rightarrow> None
      | Some x \<Rightarrow> (case column_sum p rs of None \<Rightarrow> None | Some s \<Rightarrow> Some (x + s)))"

definition total_pollutants :: "row list \<Rightarrow> (real \<times> real \<times> real \<times> real) option" where
  "total_pollutants df =
     (case column_sum ''CO'' df of None \<Rightarrow> None | Some co \<Rightarrow>
      (case column_sum ''NOx'' df of None \<Rightarrow> None | Some nox \<Rightarrow>
       (case column_sum ''PM2.5'' df of None \<Rightarrow> None | Some pm \<Rightarrow>
        (case column_sum ''CO2'' df of None \<Rightarrow> None | Some co2 \<Rightarrow> Some (co, nox, pm, co2)))))"

definition save_pollution_summary :: "env \<Rightarrow> row list \<Rightarrow> stores \<Rightarrow> stores \<times> event list" where
  "save_pollution_summary env df st =
     (case total_pollutants df of
        None \<Rightarrow> (st, [Log ERROR ''Failed to save pollution summary''])
      | Some (co, nox, pm, co2) \<Rightarrow>
          (let summary = \<lparr>summary_timestamp = now_summary env,
                          summary_vehicle_count = nunique_vehicle_id df,
                          CO_total_g = py_round co 2, NOx_total_g = py_round nox 2,
                          PM2_5_total_g = py_round pm 2, CO2_total_g = py_round co2 2\<rparr>
           in if summary_write_ok env
              then (let old = (case traffic_pollution_summary st of
                                 None \<Rightarrow> [SummaryHeader] | Some ls \<Rightarrow> ls)
                    in (st\<lparr>traffic_pollution_summary := Some (old @ [SummaryRow summary])\<rparr>,
                        [Write OUT_POLLUTION_SUMMARY True, Log INFO ''Saved pollution summary'',
                         Log INFO ''Summary'']))
              else (st, [Write OUT_POLLUTION_SUMMARY False,
                         Log ERROR ''Failed to save pollution summary''])))"

subsection \<open>\<open>main\<close>\<close>

text \<open>
  The result is the exit code of the process (0 when \<open>main\<close> returns), the files
  after the run and what the run did. \<open>sys.exit\<close> raises \<open>SystemExit\<close>, which the
  handler \<open>except Exception\<close> does not catch; an exception of \<open>process_vehicles\<close> it
  does catch, and exits with 1. \<open>process_vehicles_log\<close> is the two lines that
  \<open>process_vehicles\<close> logs before it returns.
\<close>

definition process_vehicles_log :: "nat \<Rightarrow> event list" where
  "process_vehicles_log skipped =
     (if skipped > 0 then [Log INFO ''Skipped invalid vehicle records''] else [])
       @ [Log INFO ''Processing complete'']"

definition main :: "env \<Rightarrow> stores \<Rightarrow> nat \<times> stores \<times> event list" where
  "main env st =
     (case fetch_traffic_data env of
        (Exit c, tr) \<Rightarrow> (c, st, tr)
      | (Return entities, tr) \<Rightarrow>
          (case process_vehicles (utcoffset env) entities of
             Inl x \<Rightarrow> (1, st, tr @ [Log ERROR ''Unexpected error''])
           | Inr (df, skipped) \<Rightarrow>
               (let tr1 = tr @ process_vehicles_log skipped
                in if df = []
                   then (1, st, tr1 @ [Log ERROR ''No valid vehicle data after processing''])
                   else
                     (case save_raw_data env df st of
                        (Exit c, st1, tr2) \<Rightarrow> (c, st1, tr1 @ tr2)
                      | (Return u, st1, tr2) \<Rightarrow>
                          (case log_vehicle_count env df st1 of
                             (st2, tr3) \<Rightarrow>
                               (case save_pollution_summary env df st2 of
                                  (st3, tr4) \<Rightarrow>
                                    (0, st3, tr1 @ tr2 @ tr3 @ tr4
                                       @ [Log INFO ''All operations completed successfully''])))))))"

text \<open>The attempts on which a run sent a request, in order.\<close>

fun requests_sent :: "event list \<Rightarrow> nat list" where
  "requests_sent [] = []"
| "requests_sent (Request n # evs) = n # requests_sent evs"
| "requests_sent (Log l m # evs) = requests_sent evs"
| "requests_sent (Write f b # evs) = requests_sent evs"

text \<open>The file operations a run tried, in order.\<close>

fun writes_tried :: "event list \<Rightarrow> (store_name \<times> bool) list" where
  "writes_tried [] = []"
| "writes_tried (Write f b # evs) = (f, b) # writes_tried evs"
| "writes_tried (Request n # evs) = writes_tried evs"
| "writes_tried (Log l m # evs) = writes_tried evs"

subsection \<open>Example feeds and runs\<close>

definition position_ok :: position where
  "position_ok = \<lparr>latitude = 28.65, longitude = 77.3, speed = Some 10\<rparr>"

definition entity_valid :: entity where
  "entity_valid =
     \<lparr>entity_id = ''V1'',
      vehicle = Some \<lparr>descriptor_id = None, position = Some position_ok, timestamp = Some 1700000000\<rparr>\<rparr>"

definition entity_no_timestamp :: entity where
  "entity_no_timestamp =
     \<lparr>entity_id = ''V2'',
      vehicle = Some \<lparr>descriptor_id = None, position = Some position_ok, timestamp = None\<rparr>\<rparr>"

definition entity_lat_40 :: entity where
  "entity_lat_40 =
     \<lparr>entity_id = ''V3'',
      vehicle = Some \<lparr>descriptor_id = None,
                     position = Some \<lparr>latitude = 40.0, longitude = 77.3, speed = Some 10\<rparr>,
                     timestamp = Some 1700000000\<rparr>\<rparr>"

definition entity_no_speed :: entity where
  "entity_no_speed =
     \<lparr>entity_id = ''V4'',
      vehicle = Some \<lparr>descriptor_id = None,
                     position = Some \<lparr>latitude = 28.65, longitude = 77.3, speed = None\<rparr>,
                     timestamp = Some 1700000000\<rparr>\<rparr>"

text \<open>A vehicle whose timestamp, an unsigned 64-bit field of the feed, is \<open>2 ^ 63\<close>.\<close>

definition entity_overflow :: entity where
  "entity_overflow =
     \<lparr>entity_id = ''V5'',
      vehicle = Some \<lparr>descriptor_id = None, position = Some position_ok, timestamp = Some (2 ^ 63)\<rparr>\<rparr>"

text \<open>A vehicle without speed whose timestamp is the last second of the year 9999.\<close>

definition entity_no_speed_late :: entity where
  "entity_no_speed_late =
     \<lparr>entity_id = ''V6'',
      vehicle = Some \<lparr>descriptor_id = None,
                     position = Some \<lparr>latitude = 28.65, longitude = 77.3, speed = None\<rparr>,
                     timestamp = Some 253402300799\<rparr>\<rparr>"

text \<open>A vehicle whose descriptor names it \<open>BUS7\<close>, in the entity \<open>E1\<close>.\<close>

definition vehicle_bus7 :: vehicle where
  "vehicle_bus7 =
     \<lparr>descriptor_id = Some ''BUS7'', position = Some position_ok, timestamp = Some 1700000000\<rparr>"

definition entity_bus7 :: entity where
  "entity_bus7 = \<lparr>entity_id = ''E1'', vehicle = Some vehicle_bus7\<rparr>"



text \<open>The zone of India, five and a half hours east of UTC.\<close>

definition zone_kolkata :: "int \<Rightarrow> int" where
  "zone_kolkata ts = 19800"

definition feed_scenario :: "entity list" where
  "feed_scenario = [entity_no_timestamp, entity_lat_40, entity_valid]"

definition row_valid :: row where
  "row_valid =
     \<lparr>vehicle_id = ''V1'', row_timestamp = 1700000000, row_latitude = 28.65,
      row_longitude = 77.3, speed_m_s = 10,
      emissions = [(''CO'', 3.6), (''NOx'', 4.8), (''PM2.5'', 0.3), (''CO2'', 660)]\<rparr>"

definition row_no_speed :: row where
  "row_no_speed =
     \<lparr>vehicle_id = ''V4'', row_timestamp = 1700000000, row_latitude = 28.65,
      row_longitude = 77.3, speed_m_s = 0,
      emissions = [(''CO'', 0), (''NOx'', 0), (''PM2.5'', 0), (''CO2'', 0)]\<rparr>"


definition row_bus7 :: row where
  "row_bus7 =
     \<lparr>vehicle_id = ''E1'', row_timestamp = 1700000000, row_latitude = 28.65,
      row_longitude = 77.3, speed_m_s = 10,
      emissions = [(''CO'', 3.6), (''NOx'', 4.8), (''PM2.5'', 0.3), (''CO2'', 660)]\<rparr>"





definition stores_empty :: stores where
  "stores_empty =
     \<lparr>raw_traffic_emissions = None, vehicle_count_log = None, traffic_pollution_summary = None\<rparr>"

text \<open>A run in which everything succeeds at once, on the feed of the scenario.\<close>

definition env_ok :: env where
  "env_ok =
     \<lparr>http_get = (\<lambda>n. Response ''payload''), parse_feed = (\<lambda>content. Some feed_scenario),
      raw_write_ok = True, count_append_ok = True, summary_write_ok = True,
      now_count = ''2026-01-01T00:00:00'', now_summary = ''2026-01-01T00:00:01'',
      utcoffset = zone_kolkata\<rparr>"

definition env_timeouts :: env where
  "env_timeouts = env_ok\<lparr>http_get := (\<lambda>n. Timeout)\<rparr>"

definition env_count_fails :: env where
  "env_count_fails = env_ok\<lparr>count_append_ok := False\<rparr>"

definition env_overflow :: env where
  "env_overflow = env_ok\<lparr>parse_feed := (\<lambda>content. Some [entity_valid, entity_overflow])\<rparr>"

section \<open>Properties\<close>

subsection \<open>Rounding\<close>

lemma round_half_even_ge: "of_int k \<le> y \<Longrightarrow> k \<le> round_half_even y"
proof -
  assume "of_int k \<le> y"
  then have "k \<le> \<lfloor>y\<rfloor>" by (simp add: le_floor_iff)
  then show ?thesis by (simp add: round_half_even_def Let_def)
qed

lemma round_half_even_le: "y \<le> of_int k \<Longrightarrow> round_half_even y \<le> k"
proof (cases "y = of_int \<lfloor>y\<rfloor>")
  case True
  assume "y \<le> of_int k"
  then have "\<lfloor>y\<rfloor> \<le> k" using floor_mono by fastforce
  moreover have "y - of_int \<lfloor>y\<rfloor> = 0" using True by simp
  ultimately show ?thesis by (simp add: round_half_even_def Let_def)
next
  case False
  assume le: "y \<le> of_int k"
  have "of_int \<lfloor>y\<rfloor> < y" using False of_int_floor_le [of y] by linarith
  with le have "of_int \<lfloor>y\<rfloor> < (of_int k :: real)" by linarith
  then have "\<lfloor>y\<rfloor> + 1 \<le> k" by simp
  then show ?thesis by (simp add: round_half_even_def Let_def)
qed

lemma py_round_ge: "of_int k / 10 ^ n \<le> x \<Longrightarrow> of_int k / 10 ^ n \<le> py_round x n"
proof -
  assume "of_int k / 10 ^ n \<le> x"
  then have "of_int k \<le> x * 10 ^ n" by (simp add: pos_divide_le_eq)
  then have "k \<le> round_half_even (x * 10 ^ n)" by (rule round_half_even_ge)
  then have "(of_int k :: real) \<le> of_int (round_half_even (x * 10 ^ n))" by simp
  then show ?thesis unfolding py_round_def by (simp add: divide_right_mono)
qed

lemma py_round_le: "x \<le> of_int k / 10 ^ n \<Longrightarrow> py_round x n \<le> of_int k / 10 ^ n"
proof -
  assume "x \<le> of_int k / 10 ^ n"
  then have "x * 10 ^ n \<le> of_int k" by (simp add: pos_le_divide_eq)
  then have "round_half_even (x * 10 ^ n) \<le> k" by (rule round_half_even_le)
  then have "(of_int (round_half_even (x * 10 ^ n)) :: real) \<le> of_int k" by simp
  then show ?thesis unfolding py_round_def by (simp add: divide_right_mono)
qed

lemma py_round_0 [simp]: "py_round 0 n = 0"
  by (simp add: py_round_def round_half_even_def)

lemma lat_round: "LAT_MIN \<le> x \<Longrightarrow> x \<le> LAT_MAX \<Longrightarrow> LAT_MIN \<le> py_round x 6 \<and> py_round x 6 \<le> LAT_MAX"
  using py_round_ge [of 28500000 6 x] py_round_le [of x 28800000 6]
  by (simp add: LAT_MIN_def LAT_MAX_def)

lemma lon_round: "LON_MIN \<le> x \<Longrightarrow> x \<le> LON_MAX \<Longrightarrow> LON_MIN \<le> py_round x 6 \<and> py_round x 6 \<le> LON_MAX"
  using py_round_ge [of 77000000 6 x] py_round_le [of x 77400000 6]
  by (simp add: LON_MIN_def LON_MAX_def)

lemma speed_round: "0 \<le> x \<Longrightarrow> x \<le> SPEED_MAX_M_S \<Longrightarrow> 0 \<le> py_round x 2 \<and> py_round x 2 \<le> SPEED_MAX_M_S"
  using py_round_ge [of 0 2 x] py_round_le [of x 3000 2]
  by (simp add: SPEED_MAX_M_S_def)

subsection \<open>Doubles\<close>

lemma bitlen_numeral_simps:
  "bitlen 1 = 1" "bitlen (numeral (Num.Bit0 n)) = bitlen (numeral n) + 1"
  "bitlen (numeral (Num.Bit1 n)) = bitlen (numeral n) + 1"
  by (subst compute_bitlen, simp)+

lemmas float_defs = fmul_def fdiv_def fl_def ulp_def binade_def distance_km_def
  bitlen_numeral_simps

lemma fl_0 [simp]: "fl 0 = 0"
  by (simp add: fl_def)

lemma distance_km_0 [simp]: "distance_km 0 = 0"
  by (simp add: distance_km_def fmul_def fdiv_def)

lemma fmul_0_right [simp]: "fmul f 0 = 0"
  by (simp add: fmul_def)

lemma distance_km_10: "distance_km 10 = 5404319552844595 / 9007199254740992"
  by (simp add: float_defs round_half_even_def)

lemma distance_km_1_5: "distance_km (3 / 2) = 6485183463413515 / 72057594037927936"
  by (simp add: float_defs round_half_even_def)

lemma distance_km_5_32: "distance_km (5 / 32) = 5404319552844595 / 576460752303423488"
  by (simp add: float_defs round_half_even_def)

subsection \<open>Where the rows of \<open>process_vehicles\<close> come from\<close>

lemma process_entity_Some:
  assumes "process_entity tz e = Inr (Some r)"
  obtains v p t ts where "vehicle e = Some v" and "position v = Some p"
    and "timestamp v = Some t"
    and "validate_location (latitude p) (longitude p)"
    and "validate_speed (getattr_speed p)"
    and "fromtimestamp t = Inr ts" and "astimezone tz ts = Inr ts"
    and "r = \<lparr>vehicle_id = resolve_vehicle_id (getattr_id v) (entity_id e), row_timestamp = ts,
              row_latitude = py_round (latitude p) 6, row_longitude = py_round (longitude p) 6,
              speed_m_s = py_round (getattr_speed p) 2,
              emissions = map (\<lambda>(pl, f). (pl, py_round (fmul f (distance_km (getattr_speed p))) 2))
                            EMISSION_FACTORS\<rparr>"
  using assms unfolding process_entity_def Let_def astimezone_def
  by (auto split: option.splits if_splits sum.splits py_exn.splits)

lemma process_loop_rows:
  "process_loop tz es rows k = Inr (rows', k') \<Longrightarrow> r \<in> set rows' \<Longrightarrow>
   r \<in> set rows \<or> (\<exists>e\<in>set es. process_entity tz e = Inr (Some r))"
proof (induction es arbitrary: rows k)
  case Nil
  then show ?case by simp
next
  case (Cons e es)
  show ?case
  proof (cases "process_entity tz e")
    case (Inl x)
    with Cons.prems show ?thesis by simp
  next
    case (Inr o1)
    show ?thesis
    proof (cases o1)
      case None
      with Inr Cons.prems have "process_loop tz es rows (k + 1) = Inr (rows', k')" by simp
      from Cons.IH [OF this Cons.prems(2)] show ?thesis by auto
    next
      case (Some r1)
      with Inr Cons.prems have "process_loop tz es (rows @ [r1]) k = Inr (rows', k')" by simp
      from Cons.IH [OF this Cons.prems(2)] Inr Some show ?thesis by auto
    qed
  qed
qed

lemma drop_duplicates_seen_subset: "set (drop_duplicates_seen seen rows) \<subseteq> set rows"
  by (induction rows arbitrary: seen) auto

lemma process_vehicles_rows:
  assumes "process_vehicles tz es = Inr (df, k)" and "r \<in> set df"
  shows "\<exists>e\<in>set es. process_entity tz e = Inr (Some r)"
proof -
  from assms(1) obtain rows where loop: "process_loop tz es [] 0 = Inr (rows, k)"
    and df: "df = drop_duplicates rows"
    by (auto simp: process_vehicles_def split: sum.splits)
  from assms(2) df have "r \<in> set rows"
    using drop_duplicates_seen_subset [of "[]" rows] by (auto simp: drop_duplicates_def)
  with process_loop_rows [OF loop] show ?thesis by auto
qed

subsection \<open>The loop body on the example entities\<close>

lemmas config_defs = LAT_MIN_def LAT_MAX_def LON_MIN_def LON_MAX_def SPEED_MAX_M_S_def
  validate_location_def validate_speed_def EMISSION_FACTORS_def

lemmas time_defs = TIME_T_MAX_def GMTIME_MAX_def DATETIME_MIN_def DATETIME_MAX_def
  fromtimestamp_def astimezone_def

lemmas round_defs = py_round_def round_half_even_def

lemma estimates_10:
  "map (\<lambda>(pl, f). (pl, py_round (fmul f (distance_km 10)) 2)) EMISSION_FACTORS
     = [(''CO'', 3.6), (''NOx'', 4.8), (''PM2.5'', 0.3), (''CO2'', 660)]"
proof -
  have co: "py_round (fmul 6 (distance_km 10)) 2 = 3.6"
    unfolding distance_km_10
    by (simp add: fmul_def fl_def ulp_def binade_def bitlen_numeral_simps round_defs)
  have nox: "py_round (fmul 8 (distance_km 10)) 2 = 4.8"
    unfolding distance_km_10
    by (simp add: fmul_def fl_def ulp_def binade_def bitlen_numeral_simps round_defs)
  have pm: "py_round (fmul (1 / 2) (distance_km 10)) 2 = 0.3"
    unfolding distance_km_10
    by (simp add: fmul_def fl_def ulp_def binade_def bitlen_numeral_simps round_defs)
  have co2: "py_round (fmul 1100 (distance_km 10)) 2 = 660"
    unfolding distance_km_10
    by (simp add: fmul_def fl_def ulp_def binade_def bitlen_numeral_simps round_defs)
  show ?thesis by (simp add: EMISSION_FACTORS_def co nox pm co2)
qed



lemma estimates_0:
  "map (\<lambda>(pl, f). (pl, py_round (fmul f (distance_km 0)) 2)) EMISSION_FACTORS
     = [(''CO'', 0), (''NOx'', 0), (''PM2.5'', 0), (''CO2'', 0)]"
  by (simp add: EMISSION_FACTORS_def)

lemma py_round_examples:
  "py_round (573 / 20) 6 = 573 / 20" "py_round (773 / 10) 6 = 773 / 10"
  "py_round 10 2 = 10" "py_round (3 / 2) 2 = 3 / 2" "py_round (5 / 32) 2 = 4 / 25"
  by (simp_all add: round_defs)

lemma process_entity_valid:
  "process_entity zone_kolkata entity_valid = Inr (Some row_valid)"
  by (simp add: process_entity_def entity_valid_def position_ok_def row_valid_def
      resolve_vehicle_id_def getattr_id_def getattr_speed_def zone_kolkata_def estimates_10
      config_defs(1-7) time_defs py_round_examples)

lemma process_entity_valid_any_zone:
  "process_entity tz entity_valid = Inl OverflowError
   \<or> process_entity tz entity_valid = Inr (Some row_valid)"
  by (simp add: process_entity_def entity_valid_def position_ok_def row_valid_def
      resolve_vehicle_id_def getattr_id_def getattr_speed_def estimates_10
      config_defs(1-7) time_defs py_round_examples)

lemma process_entity_overflow: "process_entity tz entity_overflow = Inl OverflowError"
  by (simp add: process_entity_def entity_overflow_def position_ok_def getattr_speed_def
      config_defs(1-7) time_defs)

lemma process_entity_no_timestamp: "process_entity tz entity_no_timestamp = Inr None"
  by (simp add: process_entity_def entity_no_timestamp_def)

lemma process_entity_lat_40: "process_entity tz entity_lat_40 = Inr None"
  by (simp add: process_entity_def entity_lat_40_def config_defs(1-7))

lemma process_entity_no_speed:
  "process_entity zone_kolkata entity_no_speed = Inr (Some row_no_speed)"
  by (simp add: process_entity_def entity_no_speed_def row_no_speed_def
      resolve_vehicle_id_def getattr_id_def getattr_speed_def zone_kolkata_def
      config_defs time_defs py_round_examples)

lemma process_entity_no_speed_late:
  "process_entity zone_kolkata entity_no_speed_late = Inl OverflowError"
  by (simp add: process_entity_def entity_no_speed_late_def getattr_speed_def zone_kolkata_def
      config_defs(1-7) time_defs)

lemma process_entity_bus7:
  "process_entity zone_kolkata entity_bus7 = Inr (Some row_bus7)"
  by (simp add: process_entity_def entity_bus7_def vehicle_bus7_def position_ok_def row_bus7_def
      resolve_vehicle_id_def getattr_id_def getattr_speed_def zone_kolkata_def estimates_10
      config_defs(1-7) time_defs py_round_examples)



lemma process_vehicles_scenario:
  "process_vehicles zone_kolkata feed_scenario = Inr ([row_valid], 2)"
  by (simp add: process_vehicles_def feed_scenario_def process_entity_valid
      process_entity_no_timestamp process_entity_lat_40 drop_duplicates_def)

subsection \<open>Bounds of a row\<close>

lemma process_entity_bounds:
  assumes "process_entity tz e = Inr (Some r)"
  shows "\<exists>v p. vehicle e = Some v \<and> position v = Some p
      \<and> (LAT_MIN \<le> latitude p \<and> latitude p \<le> LAT_MAX)
      \<and> (LON_MIN \<le> longitude p \<and> longitude p \<le> LON_MAX)
      \<and> (0 \<le> (case speed p of None \<Rightarrow> 0 | Some s \<Rightarrow> s)
          \<and> (case speed p of None \<Rightarrow> 0 | Some s \<Rightarrow> s) \<le> SPEED_MAX_M_S)
      \<and> row_latitude r = py_round (latitude p) 6
      \<and> row_longitude r = py_round (longitude p) 6
      \<and> speed_m_s r = py_round (case speed p of None \<Rightarrow> 0 | Some s \<Rightarrow> s) 2
      \<and> (LAT_MIN \<le> row_latitude r \<and> row_latitude r \<le> LAT_MAX)
      \<and> (LON_MIN \<le> row_longitude r \<and> row_longitude r \<le> LON_MAX)
      \<and> (0 \<le> speed_m_s r \<and> speed_m_s r \<le> SPEED_MAX_M_S)"
proof -
  from assms obtain v p t ts where v: "vehicle e = Some v" and p: "position v = Some p"
    and loc: "validate_location (latitude p) (longitude p)"
    and spd: "validate_speed (getattr_speed p)"
    and r: "r = \<lparr>vehicle_id = resolve_vehicle_id (getattr_id v) (entity_id e), row_timestamp = ts,
              row_latitude = py_round (latitude p) 6, row_longitude = py_round (longitude p) 6,
              speed_m_s = py_round (getattr_speed p) 2,
              emissions = map (\<lambda>(pl, f). (pl, py_round (fmul f (distance_km (getattr_speed p))) 2))
                            EMISSION_FACTORS\<rparr>"
    by (rule process_entity_Some)
  have g: "getattr_speed p = (case speed p of None \<Rightarrow> 0 | Some s \<Rightarrow> s)"
    by (simp add: getattr_speed_def split: option.splits)
  from loc have lat: "LAT_MIN \<le> latitude p" "latitude p \<le> LAT_MAX"
    and lon: "LON_MIN \<le> longitude p" "longitude p \<le> LON_MAX"
    by (simp_all add: validate_location_def)
  from spd g have s: "0 \<le> (case speed p of None \<Rightarrow> 0 | Some s \<Rightarrow> s)"
    "(case speed p of None \<Rightarrow> 0 | Some s \<Rightarrow> s) \<le> SPEED_MAX_M_S"
    by (simp_all add: validate_speed_def)
  from r g have rl: "row_latitude r = py_round (latitude p) 6"
    and ro: "row_longitude r = py_round (longitude p) 6"
    and rs: "speed_m_s r = py_round (case speed p of None \<Rightarrow> 0 | Some s \<Rightarrow> s) 2"
    by simp_all
  from lat_round [OF lat] lon_round [OF lon] speed_round [OF s] v p lat lon s rl ro rs
  show ?thesis by simp
qed

subsection \<open>The retry loop\<close>

lemma range_max_retries: "[0..<max_retries] = [0, 1, 2]"
  by (simp add: max_retries_def upt_rec)

lemma fetch_loop_range:
  "fetch_loop http [0..<max_retries] =
     (case http 0 of
        Response c \<Rightarrow> (Return (Some c), [Request 0, Log INFO ''API request successful''])
      | RequestException \<Rightarrow> (Exit 1, [Request 0, Log ERROR ''OTD API request failed''])
      | Timeout \<Rightarrow>
          (case http 1 of
             Response c \<Rightarrow> (Return (Some c), [Request 0, Log WARNING ''Timeout on attempt'',
                Request 1, Log INFO ''API request successful''])
           | RequestException \<Rightarrow> (Exit 1, [Request 0, Log WARNING ''Timeout on attempt'',
                Request 1, Log ERROR ''OTD API request failed''])
           | Timeout \<Rightarrow>
               (case http 2 of
                  Response c \<Rightarrow> (Return (Some c), [Request 0, Log WARNING ''Timeout on attempt'',
                     Request 1, Log WARNING ''Timeout on attempt'',
                     Request 2, Log INFO ''API request successful''])
                | RequestException \<Rightarrow> (Exit 1, [Request 0, Log WARNING ''Timeout on attempt'',
                     Request 1, Log WARNING ''Timeout on attempt'',
                     Request 2, Log ERROR ''OTD API request failed''])
                | Timeout \<Rightarrow> (Exit 1, [Request 0, Log WARNING ''Timeout on attempt'',
                     Request 1, Log WARNING ''Timeout on attempt'',
                     Request 2, Log WARNING ''Timeout on attempt'',
                     Log ERROR ''Max retries exceeded'']))))"
  unfolding range_max_retries
  by (simp add: max_retries_def split: http_result.splits)

lemma less_3_cases: "(i::nat) < 3 \<Longrightarrow> i = 0 \<or> i = 1 \<or> i = 2"
  by arith

lemma all_less_1: "(\<forall>j<(1::nat). P j) \<longleftrightarrow> P 0"
  by simp

lemma all_less_2: "(\<forall>j<(2::nat). P j) \<longleftrightarrow> P 0 \<and> P 1"
  by (metis One_nat_def less_2_cases_iff)

lemma all_less_3: "(\<forall>j<(3::nat). P j) \<longleftrightarrow> P 0 \<and> P 1 \<and> P 2"
proof
  assume "\<forall>j<3. P j"
  then show "P 0 \<and> P 1 \<and> P 2" by simp
next
  assume h: "P 0 \<and> P 1 \<and> P 2"
  show "\<forall>j<3. P j"
  proof (intro allI impI)
    fix j :: nat
    assume "j < 3"
    then have "j = 0 \<or> j = 1 \<or> j = 2" by arith
    with h show "P j" by blast
  qed
qed

lemma fetch_success:
  assumes "i < 3" and "\<forall>j<i. http j = Timeout" and "http i = Response content"
  shows "fst (fetch_loop http [0..<max_retries]) = Return (Some content)
    \<and> requests_sent (snd (fetch_loop http [0..<max_retries])) = [0..<Suc i]"
proof -
  from assms(1) have "i = 0 \<or> i = 1 \<or> i = 2" by (rule less_3_cases)
  then show ?thesis
  proof (elim disjE)
    assume "i = 0"
    with assms show ?thesis by (simp add: fetch_loop_range)
  next
    assume "i = 1"
    with assms show ?thesis unfolding fetch_loop_range by (simp add: all_less_1 upt_rec)
  next
    assume "i = 2"
    with assms show ?thesis unfolding fetch_loop_range by (simp add: all_less_2 upt_rec)
  qed
qed

lemma fetch_failure:
  assumes "i < 3" and "\<forall>j<i. http j = Timeout" and "http i = RequestException"
  shows "fetch_loop http [0..<max_retries] =
      (Exit 1, concat (map (\<lambda>j. [Request j, Log WARNING ''Timeout on attempt'']) [0..<i])
                 @ [Request i, Log ERROR ''OTD API request failed''])
    \<and> requests_sent (snd (fetch_loop http [0..<max_retries])) = [0..<Suc i]"
proof -
  from assms(1) have "i = 0 \<or> i = 1 \<or> i = 2" by (rule less_3_cases)
  then show ?thesis
  proof (elim disjE)
    assume "i = 0"
    with assms show ?thesis by (simp add: fetch_loop_range)
  next
    assume "i = 1"
    with assms show ?thesis unfolding fetch_loop_range by (simp add: all_less_1 upt_rec)
  next
    assume "i = 2"
    with assms show ?thesis unfolding fetch_loop_range by (simp add: all_less_2 upt_rec)
  qed
qed

lemma fetch_all_timeouts:
  assumes "\<forall>j<3. http j = Timeout"
  shows "fetch_loop http [0..<max_retries] =
      (Exit 1, concat (map (\<lambda>j. [Request j, Log WARNING ''Timeout on attempt'']) [0..<3])
                 @ [Log ERROR ''Max retries exceeded''])
    \<and> requests_sent (snd (fetch_loop http [0..<max_retries])) = [0, 1, 2]"
  using assms unfolding fetch_loop_range by (simp add: all_less_3 upt_rec)

lemma fetch_at_most_3:
  "length (requests_sent (snd (fetch_loop http [0..<max_retries]))) \<le> 3"
  by (simp add: fetch_loop_range split: http_result.splits)

lemma fetch_timeout_error_only_after_three:
  "Log ERROR ''Max retries exceeded'' \<in> set (snd (fetch_loop http [0..<max_retries]))
   \<Longrightarrow> http 0 = Timeout \<and> http 1 = Timeout \<and> http 2 = Timeout"
  by (simp add: fetch_loop_range split: http_result.splits)

lemma fetch_traffic_data_requests:
  "requests_sent (snd (fetch_traffic_data env))
     = requests_sent (snd (fetch_loop (http_get env) [0..<max_retries]))"
  by (simp add: fetch_traffic_data_def fetch_loop_range Let_def
      split: http_result.splits option.splits)

lemma fetch_traffic_data_no_writes: "writes_tried (snd (fetch_traffic_data env)) = []"
  by (simp add: fetch_traffic_data_def fetch_loop_range Let_def
      split: http_result.splits option.splits)

lemma fetch_traffic_data_exit: "fetch_traffic_data env = (Exit c, tr) \<Longrightarrow> c = 1"
  by (simp add: fetch_traffic_data_def fetch_loop_range Let_def
      split: http_result.splits option.splits if_splits)

subsection \<open>Removing duplicates\<close>










subsection \<open>The run as a whole\<close>

lemma process_vehicles_log_quiet:
  "writes_tried (process_vehicles_log k) = [] \<and> requests_sent (process_vehicles_log k) = []"
  by (simp add: process_vehicles_log_def)

lemma writes_tried_append: "writes_tried (xs @ ys) = writes_tried xs @ writes_tried ys"
  by (induction xs rule: writes_tried.induct) simp_all

lemma requests_sent_append: "requests_sent (xs @ ys) = requests_sent xs @ requests_sent ys"
  by (induction xs rule: requests_sent.induct) simp_all

lemma main_fetch_exit:
  "fetch_traffic_data env = (Exit c, tr) \<Longrightarrow> main env st = (1, st, tr)"
  using fetch_traffic_data_exit [of env c tr] by (simp add: main_def)

lemma main_raised:
  "fetch_traffic_data env = (Return es, tr) \<Longrightarrow> process_vehicles (utcoffset env) es = Inl x \<Longrightarrow>
   main env st = (1, st, tr @ [Log ERROR ''Unexpected error''])"
  by (simp add: main_def)

lemma main_no_rows:
  "fetch_traffic_data env = (Return es, tr) \<Longrightarrow> process_vehicles (utcoffset env) es = Inr ([], k) \<Longrightarrow>
   main env st = (1, st, tr @ process_vehicles_log k
                    @ [Log ERROR ''No valid vehicle data after processing''])"
  by (simp add: main_def)

lemma main_raw_failed:
  "fetch_traffic_data env = (Return es, tr) \<Longrightarrow> process_vehicles (utcoffset env) es = Inr (df, k) \<Longrightarrow>
   df \<noteq> [] \<Longrightarrow> \<not> raw_write_ok env \<Longrightarrow>
   main env st = (1, st, tr @ process_vehicles_log k
                    @ [Write OUT_RAW False, Log ERROR ''Failed to save raw data''])"
  by (simp add: main_def save_raw_data_def)

lemma main_completed:
  "fetch_traffic_data env = (Return es, tr) \<Longrightarrow> process_vehicles (utcoffset env) es = Inr (df, k) \<Longrightarrow>
   df \<noteq> [] \<Longrightarrow> raw_write_ok env \<Longrightarrow>
   main env st =
     (0,
      fst (save_pollution_summary env df
             (fst (log_vehicle_count env df (st\<lparr>raw_traffic_emissions := Some df\<rparr>)))),
      tr @ process_vehicles_log k
         @ [Write OUT_RAW True, Log INFO ''Saved raw traffic + emissions'']
         @ snd (log_vehicle_count env df (st\<lparr>raw_traffic_emissions := Some df\<rparr>))
         @ snd (save_pollution_summary env df
                  (fst (log_vehicle_count env df (st\<lparr>raw_traffic_emissions := Some df\<rparr>))))
         @ [Log INFO ''All operations completed successfully''])"
  by (simp add: main_def save_raw_data_def split: prod.splits)

lemma main_cases [case_names fetch_exit raised no_rows raw_failed completed]:
  obtains c tr where "fetch_traffic_data env = (Exit c, tr)"
  | es tr x where "fetch_traffic_data env = (Return es, tr)" and "process_vehicles (utcoffset env) es = Inl x"
  | es tr k where "fetch_traffic_data env = (Return es, tr)"
      and "process_vehicles (utcoffset env) es = Inr ([], k)"
  | es tr df k where "fetch_traffic_data env = (Return es, tr)"
      and "process_vehicles (utcoffset env) es = Inr (df, k)" and "df \<noteq> []" and "\<not> raw_write_ok env"
  | es tr df k where "fetch_traffic_data env = (Return es, tr)"
      and "process_vehicles (utcoffset env) es = Inr (df, k)" and "df \<noteq> []" and "raw_write_ok env"
proof (cases "fetch_traffic_data env")
  case (Pair res tr)
  show ?thesis
  proof (cases res)
    case (Exit c)
    with Pair that(1) show ?thesis by simp
  next
    case (Return es)
    show ?thesis
    proof (cases "process_vehicles (utcoffset env) es")
      case (Inl x)
      with Pair Return that(2) show ?thesis by simp
    next
      case (Inr pr)
      obtain df k where pr: "pr = (df, k)" by (cases pr)
      show ?thesis
      proof (cases "df = []")
        case True
        with Pair Return Inr pr that(3) show ?thesis by simp
      next
        case False
        with Pair Return Inr pr that(4) [of es tr df k] that(5) [of es tr df k]
        show ?thesis by (cases "raw_write_ok env") simp_all
      qed
    qed
  qed
qed

subsection \<open>The example runs\<close>

lemma utcoffset_examples:
  "utcoffset env_ok = zone_kolkata" "utcoffset env_count_fails = zone_kolkata"
  "utcoffset env_overflow = zone_kolkata" "utcoffset env_timeouts = zone_kolkata"
  by (simp_all add: env_ok_def env_count_fails_def env_overflow_def env_timeouts_def)

lemma fetch_env_ok:
  "fetch_traffic_data env_ok =
     (Return feed_scenario,
      [Request 0, Log INFO ''API request successful'', Log INFO ''Fetched vehicles from OTD feed''])"
  by (simp add: fetch_traffic_data_def fetch_loop_range env_ok_def feed_scenario_def
      entity_no_timestamp_def entity_lat_40_def entity_valid_def Let_def)

lemma fetch_env_count_fails:
  "fetch_traffic_data env_count_fails =
     (Return feed_scenario,
      [Request 0, Log INFO ''API request successful'', Log INFO ''Fetched vehicles from OTD feed''])"
  by (simp add: fetch_traffic_data_def fetch_loop_range env_count_fails_def env_ok_def
      feed_scenario_def entity_no_timestamp_def entity_lat_40_def entity_valid_def Let_def)

lemma fetch_env_overflow:
  "fetch_traffic_data env_overflow =
     (Return [entity_valid, entity_overflow],
      [Request 0, Log INFO ''API request successful'', Log INFO ''Fetched vehicles from OTD feed''])"
  by (simp add: fetch_traffic_data_def fetch_loop_range env_overflow_def env_ok_def
      entity_overflow_def entity_valid_def Let_def)

lemma fetch_env_timeouts:
  "fetch_traffic_data env_timeouts =
     (Exit 1, [Request 0, Log WARNING ''Timeout on attempt'',
               Request 1, Log WARNING ''Timeout on attempt'',
               Request 2, Log WARNING ''Timeout on attempt'',
               Log ERROR ''Max retries exceeded''])"
  by (simp add: fetch_traffic_data_def fetch_loop_range env_timeouts_def env_ok_def)

lemma row_valid_not_empty: "[row_valid] \<noteq> []"
  by simp

lemma process_vehicles_env_ok:
  "process_vehicles (utcoffset env_ok) feed_scenario = Inr ([row_valid], 2)"
  by (simp only: utcoffset_examples process_vehicles_scenario)

lemma process_vehicles_env_count_fails:
  "process_vehicles (utcoffset env_count_fails) feed_scenario = Inr ([row_valid], 2)"
  by (simp only: utcoffset_examples process_vehicles_scenario)

lemma process_vehicles_env_overflow:
  "process_vehicles (utcoffset env_overflow) [entity_valid, entity_overflow] = Inl OverflowError"
  by (simp add: utcoffset_examples process_vehicles_def process_entity_valid
      process_entity_overflow)

lemma main_env_ok_raw:
  "raw_traffic_emissions (fst (snd (main env_ok stores_empty))) = Some [row_valid]"
proof -
  have ok: "raw_write_ok env_ok" by (simp add: env_ok_def)
  show ?thesis
    by (simp add: main_completed [OF fetch_env_ok process_vehicles_env_ok row_valid_not_empty ok]
        log_vehicle_count_def save_pollution_summary_def Let_def
        split: option.splits prod.splits)
qed

section \<open>The claims\<close>

subsection \<open>Validation\<close>

text \<open>
  The loop body raises nothing but \<open>OverflowError\<close>, and only from the conversion of a
  timestamp outside \<open>time_t\<close> or from \<open>astimezone\<close>. On a feed where it does not raise,
  the loop returns and \<open>skipped\<close> grows by the number of entities that the body drops.
\<close>

lemma process_entity_raises_only_overflow:
  "process_entity tz e = Inl x \<Longrightarrow> x = OverflowError
     \<and> (\<exists>v t. vehicle e = Some v \<and> timestamp v = Some t
           \<and> (t < - (2 ^ 63) \<or> 2 ^ 63 \<le> t \<or> astimezone tz t = Inl OverflowError))"
  unfolding process_entity_def Let_def
  by (auto simp: time_defs split: option.splits if_splits sum.splits py_exn.splits)

lemma process_loop_counts:
  "\<forall>e\<in>set es. process_entity tz e \<noteq> Inl OverflowError \<Longrightarrow>
   \<exists>rows'. process_loop tz es rows k
       = Inr (rows', k + length (filter (\<lambda>e. process_entity tz e = Inr None) es))"
proof (induction es arbitrary: rows k)
  case Nil
  show ?case by simp
next
  case (Cons e es)
  from Cons.prems have tl: "\<forall>e\<in>set es. process_entity tz e \<noteq> Inl OverflowError"
    and hd: "process_entity tz e \<noteq> Inl OverflowError"
    by simp_all
  show ?case
  proof (cases "process_entity tz e")
    case (Inl x)
    with process_entity_raises_only_overflow [of tz e x] hd show ?thesis by simp
  next
    case (Inr o1)
    show ?thesis
    proof (cases o1)
      case None
      with Inr Cons.IH [OF tl, of rows "k + 1"] show ?thesis by simp
    next
      case (Some r)
      with Inr Cons.IH [OF tl, of "rows @ [r]" k] show ?thesis by simp
    qed
  qed
qed

text \<open>
  C1. The claim: validation never raises. The code: on a feed with a valid vehicle
  followed by a vehicle that has a position in bounds, a speed in bounds and the
  timestamp \<open>2 ^ 63\<close>, \<open>process_vehicles\<close> raises \<open>OverflowError\<close> in every zone: the
  conversion of the timestamp raises it, and the \<open>except\<close> clause around the
  conversion names only \<open>ValueError\<close> and \<open>OSError\<close>. The vehicle is not dropped and
  not counted.
\<close>

theorem process_vehicles_raises_on_overflow:
  "process_vehicles tz [entity_valid, entity_overflow] = Inl OverflowError"
  using process_entity_valid_any_zone [of tz]
  by (auto simp: process_vehicles_def process_entity_overflow)

subsection \<open>Bounds\<close>

text \<open>
  C2. Every row that \<open>process_vehicles\<close> returns was built from a vehicle whose
  latitude, longitude and speed are within the bounds, and its rounded latitude,
  longitude (6 decimals) and speed (2 decimals) are within the same bounds; the raw
  file after a run is the file before it or holds such rows only.
\<close>

theorem validated_rows_within_bounds:
  "(process_vehicles tz entities = Inr (df, skipped) \<longrightarrow>
      (\<forall>r\<in>set df. \<exists>e\<in>set entities. \<exists>v p. vehicle e = Some v \<and> position v = Some p
          \<and> (LAT_MIN \<le> latitude p \<and> latitude p \<le> LAT_MAX)
          \<and> (LON_MIN \<le> longitude p \<and> longitude p \<le> LON_MAX)
          \<and> (0 \<le> (case speed p of None \<Rightarrow> 0 | Some s \<Rightarrow> s)
              \<and> (case speed p of None \<Rightarrow> 0 | Some s \<Rightarrow> s) \<le> SPEED_MAX_M_S)
          \<and> row_latitude r = py_round (latitude p) 6
          \<and> row_longitude r = py_round (longitude p) 6
          \<and> speed_m_s r = py_round (case speed p of None \<Rightarrow> 0 | Some s \<Rightarrow> s) 2
          \<and> (LAT_MIN \<le> row_latitude r \<and> row_latitude r \<le> LAT_MAX)
          \<and> (LON_MIN \<le> row_longitude r \<and> row_longitude r \<le> LON_MAX)
          \<and> (0 \<le> speed_m_s r \<and> speed_m_s r \<le> SPEED_MAX_M_S)))
   \<and> (raw_traffic_emissions (fst (snd (main env st))) = raw_traffic_emissions st
        \<or> (\<exists>rows. raw_traffic_emissions (fst (snd (main env st))) = Some rows
              \<and> (\<forall>r\<in>set rows.
                    (LAT_MIN \<le> row_latitude r \<and> row_latitude r \<le> LAT_MAX)
                    \<and> (LON_MIN \<le> row_longitude r \<and> row_longitude r \<le> LON_MAX)
                    \<and> (0 \<le> speed_m_s r \<and> speed_m_s r \<le> SPEED_MAX_M_S))))"
proof -
  have rows: "\<exists>e\<in>set es. \<exists>v p. vehicle e = Some v \<and> position v = Some p
          \<and> (LAT_MIN \<le> latitude p \<and> latitude p \<le> LAT_MAX)
          \<and> (LON_MIN \<le> longitude p \<and> longitude p \<le> LON_MAX)
          \<and> (0 \<le> (case speed p of None \<Rightarrow> 0 | Some s \<Rightarrow> s)
              \<and> (case speed p of None \<Rightarrow> 0 | Some s \<Rightarrow> s) \<le> SPEED_MAX_M_S)
          \<and> row_latitude r = py_round (latitude p) 6
          \<and> row_longitude r = py_round (longitude p) 6
          \<and> speed_m_s r = py_round (case speed p of None \<Rightarrow> 0 | Some s \<Rightarrow> s) 2
          \<and> (LAT_MIN \<le> row_latitude r \<and> row_latitude r \<le> LAT_MAX)
          \<and> (LON_MIN \<le> row_longitude r \<and> row_longitude r \<le> LON_MAX)
          \<and> (0 \<le> speed_m_s r \<and> speed_m_s r \<le> SPEED_MAX_M_S)"
    if "process_vehicles z es = Inr (d, k)" and "r \<in> set d" for z es d k r
  proof -
    from process_vehicles_rows [OF that] obtain e where e: "e \<in> set es"
      and pe: "process_entity z e = Inr (Some r)" by blast
    from process_entity_bounds [OF pe] e show ?thesis by blast
  qed
  have store: "raw_traffic_emissions (fst (snd (main env st))) = raw_traffic_emissions st
        \<or> (\<exists>rows. raw_traffic_emissions (fst (snd (main env st))) = Some rows
              \<and> (\<forall>r\<in>set rows.
                    (LAT_MIN \<le> row_latitude r \<and> row_latitude r \<le> LAT_MAX)
                    \<and> (LON_MIN \<le> row_longitude r \<and> row_longitude r \<le> LON_MAX)
                    \<and> (0 \<le> speed_m_s r \<and> speed_m_s r \<le> SPEED_MAX_M_S)))"
  proof (cases env rule: main_cases)
    case (fetch_exit c tr)
    then show ?thesis by (simp add: main_fetch_exit)
  next
    case (raised es tr x)
    then show ?thesis by (simp add: main_raised)
  next
    case (no_rows es tr k)
    then show ?thesis by (simp add: main_no_rows)
  next
    case (raw_failed es tr d k)
    then show ?thesis by (simp add: main_raw_failed)
  next
    case (completed es tr d k)
    have "raw_traffic_emissions (fst (snd (main env st))) = Some d"
      by (simp add: main_completed [OF completed] log_vehicle_count_def
          save_pollution_summary_def Let_def split: option.splits prod.splits)
    moreover have "\<forall>r\<in>set d.
                    (LAT_MIN \<le> row_latitude r \<and> row_latitude r \<le> LAT_MAX)
                    \<and> (LON_MIN \<le> row_longitude r \<and> row_longitude r \<le> LON_MAX)
                    \<and> (0 \<le> speed_m_s r \<and> speed_m_s r \<le> SPEED_MAX_M_S)"
      using rows [OF completed(2)] by blast
    ultimately show ?thesis by blast
  qed
  from rows store show ?thesis by blast
qed

theorem validated_rows_within_bounds_witness:
  "process_vehicles zone_kolkata feed_scenario = Inr ([row_valid], 2)
   \<and> (LAT_MIN \<le> row_latitude row_valid \<and> row_latitude row_valid \<le> LAT_MAX)
   \<and> (LON_MIN \<le> row_longitude row_valid \<and> row_longitude row_valid \<le> LON_MAX)
   \<and> (0 \<le> speed_m_s row_valid \<and> speed_m_s row_valid \<le> SPEED_MAX_M_S)
   \<and> raw_traffic_emissions (fst (snd (main env_ok stores_empty))) = Some [row_valid]"
proof -
  note inst = validated_rows_within_bounds [of zone_kolkata feed_scenario "[row_valid]" 2 env_ok stores_empty]
  from inst process_vehicles_scenario
  have "(LAT_MIN \<le> row_latitude row_valid \<and> row_latitude row_valid \<le> LAT_MAX)
   \<and> (LON_MIN \<le> row_longitude row_valid \<and> row_longitude row_valid \<le> LON_MAX)
   \<and> (0 \<le> speed_m_s row_valid \<and> speed_m_s row_valid \<le> SPEED_MAX_M_S)"
    by auto
  with process_vehicles_scenario main_env_ok_raw show ?thesis by blast
qed

subsection \<open>Emission estimates\<close>

lemma estimate_co_10: "py_round (fmul 6 (distance_km 10)) 2 = 3.6"
  unfolding distance_km_10
  by (simp add: fmul_def fl_def ulp_def binade_def bitlen_numeral_simps round_defs)

lemma estimate_pm_1_5: "py_round (fmul (1 / 2) (distance_km (3 / 2))) 2 = 0.05"
  unfolding distance_km_1_5
  by (simp add: fmul_def fl_def ulp_def binade_def bitlen_numeral_simps round_defs)

lemma estimate_nox_5_32: "py_round (fmul 8 (distance_km (5 / 32))) 2 = 0.07"
  unfolding distance_km_5_32
  by (simp add: fmul_def fl_def ulp_def binade_def bitlen_numeral_simps round_defs)

lemma process_entity_emissions:
  assumes "process_entity tz e = Inr (Some r)"
  shows "\<exists>v p. vehicle e = Some v \<and> position v = Some p
      \<and> speed_m_s r = py_round (getattr_speed p) 2
      \<and> pollutant r ''CO''
          = Some (py_round (fmul 6.0 (fdiv (fmul (getattr_speed p) (fl 3.6)) 60.0)) 2)
      \<and> pollutant r ''NOx''
          = Some (py_round (fmul 8.0 (fdiv (fmul (getattr_speed p) (fl 3.6)) 60.0)) 2)
      \<and> pollutant r ''PM2.5''
          = Some (py_round (fmul 0.5 (fdiv (fmul (getattr_speed p) (fl 3.6)) 60.0)) 2)
      \<and> pollutant r ''CO2''
          = Some (py_round (fmul 1100.0 (fdiv (fmul (getattr_speed p) (fl 3.6)) 60.0)) 2)
      \<and> (getattr_speed p = 10 \<longrightarrow> pollutant r ''CO'' = Some 3.60)
      \<and> (getattr_speed p = 1.5 \<longrightarrow> pollutant r ''PM2.5'' = Some 0.05)
      \<and> (getattr_speed p = 0.15625 \<longrightarrow> pollutant r ''NOx'' = Some 0.07)"
proof -
  from assms obtain v p t ts where v: "vehicle e = Some v" and p: "position v = Some p"
    and r: "r = \<lparr>vehicle_id = resolve_vehicle_id (getattr_id v) (entity_id e), row_timestamp = ts,
              row_latitude = py_round (latitude p) 6, row_longitude = py_round (longitude p) 6,
              speed_m_s = py_round (getattr_speed p) 2,
              emissions = map (\<lambda>(pl, f). (pl, py_round (fmul f (distance_km (getattr_speed p))) 2))
                            EMISSION_FACTORS\<rparr>"
    by (rule process_entity_Some)
  from r have spd: "speed_m_s r = py_round (getattr_speed p) 2"
    by simp
  from r have co: "pollutant r ''CO'' = Some (py_round (fmul 6 (distance_km (getattr_speed p))) 2)"
    by (simp add: pollutant_def EMISSION_FACTORS_def)
  from r have nox: "pollutant r ''NOx'' = Some (py_round (fmul 8 (distance_km (getattr_speed p))) 2)"
    by (simp add: pollutant_def EMISSION_FACTORS_def)
  from r have pm: "pollutant r ''PM2.5''
      = Some (py_round (fmul (1 / 2) (distance_km (getattr_speed p))) 2)"
    by (simp add: pollutant_def EMISSION_FACTORS_def)
  from r have co2: "pollutant r ''CO2''
      = Some (py_round (fmul 1100 (distance_km (getattr_speed p))) 2)"
    by (simp add: pollutant_def EMISSION_FACTORS_def)
  have a: "pollutant r ''CO''
      = Some (py_round (fmul 6.0 (fdiv (fmul (getattr_speed p) (fl 3.6)) 60.0)) 2)"
    using co by (simp add: distance_km_def)
  have b: "pollutant r ''NOx''
      = Some (py_round (fmul 8.0 (fdiv (fmul (getattr_speed p) (fl 3.6)) 60.0)) 2)"
    using nox by (simp add: distance_km_def)
  have c: "pollutant r ''PM2.5''
      = Some (py_round (fmul 0.5 (fdiv (fmul (getattr_speed p) (fl 3.6)) 60.0)) 2)"
    using pm by (simp add: distance_km_def)
  have d: "pollutant r ''CO2''
      = Some (py_round (fmul 1100.0 (fdiv (fmul (getattr_speed p) (fl 3.6)) 60.0)) 2)"
    using co2 by (simp add: distance_km_def)
  have e10: "getattr_speed p = 10 \<longrightarrow> pollutant r ''CO'' = Some 3.60"
  proof
    assume h: "getattr_speed p = 10"
    have v: "(3.60 :: real) = 3.6" by simp
    from co show "pollutant r ''CO'' = Some 3.60" unfolding h estimate_co_10 v .
  qed
  have e15: "getattr_speed p = 1.5 \<longrightarrow> pollutant r ''PM2.5'' = Some 0.05"
  proof
    assume "getattr_speed p = 1.5"
    then have h: "getattr_speed p = 3 / 2" by simp
    from pm show "pollutant r ''PM2.5'' = Some 0.05" unfolding h estimate_pm_1_5 .
  qed
  have e532: "getattr_speed p = 0.15625 \<longrightarrow> pollutant r ''NOx'' = Some 0.07"
  proof
    assume "getattr_speed p = 0.15625"
    then have h: "getattr_speed p = 5 / 32" by simp
    from nox show "pollutant r ''NOx'' = Some 0.07" unfolding h estimate_nox_5_32 .
  qed
  from v p spd a b c d e10 e15 e532 show ?thesis by blast
qed






subsection \<open>Vehicle identity\<close>

lemma resolve_vehicle_id_not_empty: "resolve_vehicle_id v_id e_id \<noteq> []"
  by (simp add: resolve_vehicle_id_def split: option.splits)

text \<open>
  What the code resolves: the entity's identifier when it is not empty, otherwise
  \<open>"unknown"\<close>; never the empty string. The descriptor of the vehicle plays no part.
\<close>

lemma process_entity_vehicle_id:
  assumes "process_entity tz e = Inr (Some r)"
  shows "vehicle_id r = (if entity_id e \<noteq> [] then entity_id e else ''unknown'')
    \<and> vehicle_id r \<noteq> []"
  using assms unfolding process_entity_def Let_def
  by (auto simp: resolve_vehicle_id_def getattr_id_def
      split: option.splits if_splits sum.splits py_exn.splits)

text \<open>
  C6. The claim: the identity of a row is the vehicle-level identifier when the feed
  gives one. The code: for the vehicle whose descriptor names it \<open>BUS7\<close>, in the entity
  \<open>E1\<close>, the row's \<open>vehicle_id\<close> is \<open>E1\<close>. \<open>getattr(v, "id", None)\<close> looks for an
  attribute that a vehicle position does not have, and the descriptor's \<open>id\<close> is
  never read.
\<close>

theorem vehicle_descriptor_id_is_ignored:
  "vehicle entity_bus7 = Some vehicle_bus7
   \<and> descriptor_id vehicle_bus7 = Some ''BUS7''
   \<and> entity_id entity_bus7 = ''E1''
   \<and> process_vehicles zone_kolkata [entity_bus7] = Inr ([row_bus7], 0)
   \<and> vehicle_id row_bus7 = ''E1''"
proof -
  have a: "vehicle entity_bus7 = Some vehicle_bus7" and b: "entity_id entity_bus7 = ''E1''"
    by (simp_all add: entity_bus7_def)
  have c: "descriptor_id vehicle_bus7 = Some ''BUS7''"
    by (simp add: vehicle_bus7_def)
  have d: "process_vehicles zone_kolkata [entity_bus7] = Inr ([row_bus7], 0)"
    by (simp add: process_vehicles_def process_entity_bus7 drop_duplicates_def)
  have e: "vehicle_id row_bus7 = ''E1''"
    by (simp add: row_bus7_def)
  from a b c d e show ?thesis by blast
qed

subsection \<open>A vehicle without speed\<close>

text \<open>
  A vehicle with position and timestamp, a location in bounds, a timestamp that
  converts and that the local zone can show, and no speed is not skipped: the loop
  appends a row for it and leaves \<open>skipped\<close> as it is; the row's speed is 0 and its four
  estimates are 0.
\<close>

lemma absent_speed_defaults_to_zero:
  assumes "vehicle e = Some v" and "position v = Some p" and "timestamp v = Some t"
    and "validate_location (latitude p) (longitude p)" and "fromtimestamp t = Inr ts"
    and "astimezone tz ts = Inr ts" and "speed p = None"
  shows "\<exists>r. process_entity tz e = Inr (Some r)
      \<and> process_loop tz (e # es) rows skipped = process_loop tz es (rows @ [r]) skipped
      \<and> speed_m_s r = 0
      \<and> pollutant r ''CO'' = Some 0 \<and> pollutant r ''NOx'' = Some 0
      \<and> pollutant r ''PM2.5'' = Some 0 \<and> pollutant r ''CO2'' = Some 0"
  using assms
  by (simp add: process_entity_def validate_speed_def SPEED_MAX_M_S_def EMISSION_FACTORS_def
      getattr_speed_def pollutant_def Let_def)

text \<open>
  C10. The claim: such a vehicle is kept whenever its location and timestamp pass
  validation. The code: for a vehicle without speed at (28.65, 77.3) whose timestamp
  is 253402300799, the last second of the year 9999, the four checks pass, and in the
  zone of India \<open>ts.astimezone()\<close>, which is outside the \<open>try\<close>, raises
  \<open>OverflowError\<close>: the vehicle is neither kept nor skipped, and \<open>process_vehicles\<close>
  raises.
\<close>

theorem absent_speed_raises_when_local_time_overflows:
  "vehicle entity_no_speed_late
     = Some \<lparr>descriptor_id = None,
             position = Some \<lparr>latitude = 28.65, longitude = 77.3, speed = None\<rparr>,
             timestamp = Some 253402300799\<rparr>
   \<and> validate_location 28.65 77.3
   \<and> validate_speed 0.0
   \<and> fromtimestamp 253402300799 = Inr 253402300799
   \<and> astimezone zone_kolkata 253402300799 = Inl OverflowError
   \<and> process_entity zone_kolkata entity_no_speed_late = Inl OverflowError
   \<and> process_vehicles zone_kolkata [entity_no_speed_late] = Inl OverflowError"
proof -
  have a: "vehicle entity_no_speed_late
     = Some \<lparr>descriptor_id = None,
             position = Some \<lparr>latitude = 28.65, longitude = 77.3, speed = None\<rparr>,
             timestamp = Some 253402300799\<rparr>"
    by (simp add: entity_no_speed_late_def)
  have b: "validate_location 28.65 77.3" and c: "validate_speed 0.0"
    by (simp_all add: config_defs(1-7))
  have d: "fromtimestamp 253402300799 = Inr 253402300799"
    and e: "astimezone zone_kolkata 253402300799 = Inl OverflowError"
    by (simp_all add: time_defs zone_kolkata_def)
  have f: "process_vehicles zone_kolkata [entity_no_speed_late] = Inl OverflowError"
    by (simp add: process_vehicles_def process_entity_no_speed_late)
  from a b c d e f process_entity_no_speed_late show ?thesis by blast
qed

subsection \<open>Fetching\<close>

lemma fetch_traffic_data_loop_exit:
  "fetch_loop (http_get env) [0..<max_retries] = (Exit c, tr) \<Longrightarrow>
   fetch_traffic_data env = (Exit c, tr)"
  by (simp add: fetch_traffic_data_def)

text \<open>
  C5. \<open>fetch_traffic_data\<close> sends at most 3 requests. When the attempts before
  attempt \<open>i\<close> (\<open>i < 3\<close>) time out and attempt \<open>i\<close> succeeds, the loop leaves with the
  body of that response and the requests sent are those of attempts \<open>0..i\<close>; when
  attempt \<open>i\<close> fails otherwise, the function exits with 1 at once, after the same
  requests. When all three attempts time out it exits with 1 after three requests,
  and it reports that the retries are used up only in that case.
\<close>

theorem fetch_makes_at_most_three_attempts:
  "length (requests_sent (snd (fetch_traffic_data env))) \<le> 3
   \<and> (i < 3 \<and> (\<forall>j<i. http_get env j = Timeout) \<and> http_get env i = Response content \<longrightarrow>
        fst (fetch_loop (http_get env) [0..<max_retries]) = Return (Some content)
        \<and> requests_sent (snd (fetch_traffic_data env)) = [0..<Suc i])
   \<and> (i < 3 \<and> (\<forall>j<i. http_get env j = Timeout) \<and> http_get env i = RequestException \<longrightarrow>
        fetch_traffic_data env
          = (Exit 1, concat (map (\<lambda>j. [Request j, Log WARNING ''Timeout on attempt'']) [0..<i])
                       @ [Request i, Log ERROR ''OTD API request failed''])
        \<and> requests_sent (snd (fetch_traffic_data env)) = [0..<Suc i])
   \<and> ((\<forall>j<3. http_get env j = Timeout) \<longrightarrow>
        fetch_traffic_data env
          = (Exit 1, concat (map (\<lambda>j. [Request j, Log WARNING ''Timeout on attempt'']) [0..<3])
                       @ [Log ERROR ''Max retries exceeded''])
        \<and> requests_sent (snd (fetch_traffic_data env)) = [0, 1, 2])
   \<and> (Log ERROR ''Max retries exceeded'' \<in> set (snd (fetch_traffic_data env)) \<longrightarrow>
        http_get env 0 = Timeout \<and> http_get env 1 = Timeout \<and> http_get env 2 = Timeout)"
proof -
  have a: "length (requests_sent (snd (fetch_traffic_data env))) \<le> 3"
    unfolding fetch_traffic_data_requests by (rule fetch_at_most_3)
  have b: "fst (fetch_loop (http_get env) [0..<max_retries]) = Return (Some content)
        \<and> requests_sent (snd (fetch_traffic_data env)) = [0..<Suc i]"
    if "i < 3 \<and> (\<forall>j<i. http_get env j = Timeout) \<and> http_get env i = Response content"
    using that fetch_success [of i "http_get env" content]
    by (simp add: fetch_traffic_data_requests)
  have c: "fetch_traffic_data env
          = (Exit 1, concat (map (\<lambda>j. [Request j, Log WARNING ''Timeout on attempt'']) [0..<i])
                       @ [Request i, Log ERROR ''OTD API request failed''])
        \<and> requests_sent (snd (fetch_traffic_data env)) = [0..<Suc i]"
    if h: "i < 3 \<and> (\<forall>j<i. http_get env j = Timeout) \<and> http_get env i = RequestException"
  proof -
    from h fetch_failure [of i "http_get env"]
    have loop: "fetch_loop (http_get env) [0..<max_retries] =
        (Exit 1, concat (map (\<lambda>j. [Request j, Log WARNING ''Timeout on attempt'']) [0..<i])
                   @ [Request i, Log ERROR ''OTD API request failed''])"
      and sent: "requests_sent (snd (fetch_loop (http_get env) [0..<max_retries])) = [0..<Suc i]"
      by blast+
    from sent have "requests_sent (snd (fetch_traffic_data env)) = [0..<Suc i]"
      by (simp only: fetch_traffic_data_requests)
    with fetch_traffic_data_loop_exit [OF loop] show ?thesis by blast
  qed
  have d: "fetch_traffic_data env
          = (Exit 1, concat (map (\<lambda>j. [Request j, Log WARNING ''Timeout on attempt'']) [0..<3])
                       @ [Log ERROR ''Max retries exceeded''])
        \<and> requests_sent (snd (fetch_traffic_data env)) = [0, 1, 2]"
    if h: "\<forall>j<3. http_get env j = Timeout"
  proof -
    from fetch_all_timeouts [OF h]
    have loop: "fetch_loop (http_get env) [0..<max_retries] =
        (Exit 1, concat (map (\<lambda>j. [Request j, Log WARNING ''Timeout on attempt'']) [0..<3])
                   @ [Log ERROR ''Max retries exceeded''])"
      and sent: "requests_sent (snd (fetch_loop (http_get env) [0..<max_retries])) = [0, 1, 2]"
      by blast+
    from sent have "requests_sent (snd (fetch_traffic_data env)) = [0, 1, 2]"
      by (simp only: fetch_traffic_data_requests)
    with fetch_traffic_data_loop_exit [OF loop] show ?thesis by blast
  qed
  have e: "http_get env 0 = Timeout \<and> http_get env 1 = Timeout \<and> http_get env 2 = Timeout"
    if "Log ERROR ''Max retries exceeded'' \<in> set (snd (fetch_traffic_data env))"
    using that
    by (simp add: fetch_traffic_data_def fetch_loop_range Let_def
        split: http_result.splits option.splits if_splits)
  from a b c d e show ?thesis by blast
qed

theorem fetch_makes_at_most_three_attempts_witness:
  "fetch_traffic_data env_timeouts
     = (Exit 1, [Request 0, Log WARNING ''Timeout on attempt'',
                 Request 1, Log WARNING ''Timeout on attempt'',
                 Request 2, Log WARNING ''Timeout on attempt'',
                 Log ERROR ''Max retries exceeded''])
   \<and> requests_sent (snd (fetch_traffic_data env_timeouts)) = [0, 1, 2]
   \<and> requests_sent (snd (fetch_traffic_data env_ok)) = [0]
   \<and> fst (fetch_loop (http_get env_ok) [0..<max_retries]) = Return (Some ''payload'')
   \<and> fetch_traffic_data
        (env_ok\<lparr>http_get := (\<lambda>n. if n = 0 then Timeout else RequestException)\<rparr>)
       = (Exit 1, [Request 0, Log WARNING ''Timeout on attempt'',
                   Request 1, Log ERROR ''OTD API request failed''])"
proof -
  have t: "\<forall>j<3. http_get env_timeouts j = Timeout"
    by (simp add: env_timeouts_def)
  from fetch_makes_at_most_three_attempts [of env_timeouts 0 "[]"] t
  have a: "fetch_traffic_data env_timeouts
          = (Exit 1, concat (map (\<lambda>j. [Request j, Log WARNING ''Timeout on attempt'']) [0..<3])
                       @ [Log ERROR ''Max retries exceeded''])
        \<and> requests_sent (snd (fetch_traffic_data env_timeouts)) = [0, 1, 2]"
    by blast
  have ok: "0 < (3::nat) \<and> (\<forall>j<0. http_get env_ok j = Timeout)
      \<and> http_get env_ok 0 = Response ''payload''"
    by (simp add: env_ok_def)
  from fetch_makes_at_most_three_attempts [of env_ok 0 "''payload''"] ok
  have b: "fst (fetch_loop (http_get env_ok) [0..<max_retries]) = Return (Some ''payload'')
        \<and> requests_sent (snd (fetch_traffic_data env_ok)) = [0..<Suc 0]"
    by blast
  have bad: "1 < (3::nat)
      \<and> (\<forall>j<1. http_get (env_ok\<lparr>http_get := (\<lambda>n. if n = 0 then Timeout else RequestException)\<rparr>) j
            = Timeout)
      \<and> http_get (env_ok\<lparr>http_get := (\<lambda>n. if n = 0 then Timeout else RequestException)\<rparr>) 1
          = RequestException"
    by simp
  from fetch_makes_at_most_three_attempts
         [of "env_ok\<lparr>http_get := (\<lambda>n. if n = 0 then Timeout else RequestException)\<rparr>" 1] bad
  have c: "fetch_traffic_data
        (env_ok\<lparr>http_get := (\<lambda>n. if n = 0 then Timeout else RequestException)\<rparr>)
       = (Exit 1, concat (map (\<lambda>j. [Request j, Log WARNING ''Timeout on attempt'']) [0..<1])
                    @ [Request 1, Log ERROR ''OTD API request failed''])"
    by blast
  from a b c show ?thesis by (simp add: upt_rec)
qed

subsection \<open>Fatal fetch and decode errors\<close>

text \<open>
  C8. When the three attempts time out, the run exits with 1, the three files are as
  they were and no file operation was tried; the same holds whenever
  \<open>fetch_traffic_data\<close> exits, which covers every fetch and decode error.
\<close>

theorem fatal_fetch_writes_nothing:
  "((\<forall>j<3. http_get env j = Timeout) \<longrightarrow>
      fst (main env st) = 1 \<and> fst (snd (main env st)) = st
      \<and> writes_tried (snd (snd (main env st))) = []
      \<and> requests_sent (snd (snd (main env st))) = [0, 1, 2])
   \<and> (fetch_traffic_data env = (Exit c, tr) \<longrightarrow>
        fst (main env st) = 1 \<and> fst (snd (main env st)) = st
        \<and> writes_tried (snd (snd (main env st))) = [])"
proof -
  have exit: "fst (main env st) = 1 \<and> fst (snd (main env st)) = st
        \<and> writes_tried (snd (snd (main env st))) = []"
    if h: "fetch_traffic_data env = (Exit c', tr')" for c' tr'
  proof -
    from fetch_traffic_data_no_writes [of env] h have "writes_tried tr' = []" by simp
    with main_fetch_exit [OF h, of st] show ?thesis by simp
  qed
  have timeouts: "fst (main env st) = 1 \<and> fst (snd (main env st)) = st
      \<and> writes_tried (snd (snd (main env st))) = []
      \<and> requests_sent (snd (snd (main env st))) = [0, 1, 2]"
    if h: "\<forall>j<3. http_get env j = Timeout"
  proof -
    from fetch_all_timeouts [OF h]
    have loop: "fetch_loop (http_get env) [0..<max_retries] =
        (Exit 1, concat (map (\<lambda>j. [Request j, Log WARNING ''Timeout on attempt'']) [0..<3])
                   @ [Log ERROR ''Max retries exceeded''])"
      and sent: "requests_sent (snd (fetch_loop (http_get env) [0..<max_retries])) = [0, 1, 2]"
      by blast+
    note f = fetch_traffic_data_loop_exit [OF loop]
    from sent loop have "requests_sent (concat (map (\<lambda>j. [Request j, Log WARNING ''Timeout on attempt'']) [0..<3])
                   @ [Log ERROR ''Max retries exceeded'']) = [0, 1, 2]"
      by simp
    with exit [OF f] main_fetch_exit [OF f, of st] show ?thesis by simp
  qed
  from exit timeouts show ?thesis by blast
qed

theorem fatal_fetch_writes_nothing_witness:
  "fst (main env_timeouts stores_empty) = 1
   \<and> fst (snd (main env_timeouts stores_empty)) = stores_empty
   \<and> writes_tried (snd (snd (main env_timeouts stores_empty))) = []
   \<and> requests_sent (snd (snd (main env_timeouts stores_empty))) = [0, 1, 2]"
proof -
  have t: "\<forall>j<3. http_get env_timeouts j = Timeout"
    by (simp add: env_timeouts_def)
  note inst = fatal_fetch_writes_nothing [of env_timeouts stores_empty 1
      "[Request 0, Log WARNING ''Timeout on attempt'',
        Request 1, Log WARNING ''Timeout on attempt'',
        Request 2, Log WARNING ''Timeout on attempt'',
        Log ERROR ''Max retries exceeded'']"]
  from inst t have "requests_sent (snd (snd (main env_timeouts stores_empty))) = [0, 1, 2]"
    by blast
  moreover from inst fetch_env_timeouts
  have "fst (main env_timeouts stores_empty) = 1
      \<and> fst (snd (main env_timeouts stores_empty)) = stores_empty
      \<and> writes_tried (snd (snd (main env_timeouts stores_empty))) = []"
    by blast
  ultimately show ?thesis by blast
qed

subsection \<open>A failure to append the vehicle count\<close>

lemma column_sum_Some:
  "\<forall>r\<in>set df. pollutant r p \<noteq> None \<Longrightarrow> \<exists>x. column_sum p df = Some x"
  by (induction df) auto

lemma process_vehicles_total_pollutants:
  assumes "process_vehicles tz es = Inr (df, k)"
  shows "\<exists>co nox pm co2. total_pollutants df = Some (co, nox, pm, co2)"
proof -
  have cols: "pollutant r ''CO'' \<noteq> None \<and> pollutant r ''NOx'' \<noteq> None
      \<and> pollutant r ''PM2.5'' \<noteq> None \<and> pollutant r ''CO2'' \<noteq> None" if "r \<in> set df" for r
  proof -
    from process_vehicles_rows [OF assms that] obtain e
      where "process_entity tz e = Inr (Some r)" by blast
    from process_entity_emissions [OF this] show ?thesis by auto
  qed
  from cols column_sum_Some [of df "''CO''"] obtain co where "column_sum ''CO'' df = Some co"
    by blast
  moreover from cols column_sum_Some [of df "''NOx''"]
  obtain nox where "column_sum ''NOx'' df = Some nox" by blast
  moreover from cols column_sum_Some [of df "''PM2.5''"]
  obtain pm where "column_sum ''PM2.5'' df = Some pm" by blast
  moreover from cols column_sum_Some [of df "''CO2''"]
  obtain co2 where "column_sum ''CO2'' df = Some co2" by blast
  ultimately show ?thesis by (simp add: total_pollutants_def)
qed

lemma main_writes_without_raw:
  "(OUT_RAW, True) \<in> set (writes_tried (snd (snd (main env st)))) \<Longrightarrow>
   \<exists>es tr df k. fetch_traffic_data env = (Return es, tr) \<and> process_vehicles (utcoffset env) es = Inr (df, k)
      \<and> df \<noteq> [] \<and> raw_write_ok env"
proof (cases env rule: main_cases)
  case (fetch_exit c tr)
  assume w: "(OUT_RAW, True) \<in> set (writes_tried (snd (snd (main env st))))"
  from fetch_traffic_data_no_writes [of env] fetch_exit have "writes_tried tr = []" by simp
  with w main_fetch_exit [OF fetch_exit, of st] show ?thesis by simp
next
  case (raised es tr x)
  assume w: "(OUT_RAW, True) \<in> set (writes_tried (snd (snd (main env st))))"
  from fetch_traffic_data_no_writes [of env] raised(1) have "writes_tried tr = []" by simp
  with w main_raised [OF raised, of st] show ?thesis by (simp add: writes_tried_append)
next
  case (no_rows es tr k)
  assume w: "(OUT_RAW, True) \<in> set (writes_tried (snd (snd (main env st))))"
  from fetch_traffic_data_no_writes [of env] no_rows(1) have "writes_tried tr = []" by simp
  with w main_no_rows [OF no_rows, of st] show ?thesis
    by (simp add: writes_tried_append process_vehicles_log_quiet)
next
  case (raw_failed es tr df k)
  assume w: "(OUT_RAW, True) \<in> set (writes_tried (snd (snd (main env st))))"
  from fetch_traffic_data_no_writes [of env] raw_failed(1) have "writes_tried tr = []" by simp
  with w main_raw_failed [OF raw_failed, of st] show ?thesis
    by (simp add: writes_tried_append process_vehicles_log_quiet)
next
  case (completed es tr df k)
  then show ?thesis by blast
qed

text \<open>
  C9. In a run whose raw write succeeded and whose append to the vehicle-count file
  fails, the failure is logged, the process exits with 0, the file operations tried
  are the raw write, the failed count append and then the summary write, the
  vehicle-count file is as it was, and a summary write that succeeds appends one
  row to the summary file.
\<close>

theorem count_append_failure_is_not_fatal:
  assumes "(OUT_RAW, True) \<in> set (writes_tried (snd (snd (main env st))))"
    and "\<not> count_append_ok env"
  shows "fst (main env st) = 0
    \<and> writes_tried (snd (snd (main env st)))
        = [(OUT_RAW, True), (OUT_VEHICLE_COUNT, False),
           (OUT_POLLUTION_SUMMARY, summary_write_ok env)]
    \<and> Log ERROR ''Failed to log vehicle count'' \<in> set (snd (snd (main env st)))
    \<and> vehicle_count_log (fst (snd (main env st))) = vehicle_count_log st
    \<and> (summary_write_ok env \<longrightarrow>
         (\<exists>row. traffic_pollution_summary (fst (snd (main env st)))
            = Some ((case traffic_pollution_summary st of
                       None \<Rightarrow> [SummaryHeader] | Some ls \<Rightarrow> ls) @ [SummaryRow row])))"
proof -
  from main_writes_without_raw [OF assms(1)] obtain es tr df k
    where f: "fetch_traffic_data env = (Return es, tr)"
      and pv: "process_vehicles (utcoffset env) es = Inr (df, k)" and ne: "df \<noteq> []" and ok: "raw_write_ok env"
    by blast
  from fetch_traffic_data_no_writes [of env] f have quiet: "writes_tried tr = []" by simp
  from process_vehicles_total_pollutants [OF pv] obtain co nox pm co2
    where tot: "total_pollutants df = Some (co, nox, pm, co2)" by blast
  note m = main_completed [OF f pv ne ok, of st]
  from assms(2) have cnt: "log_vehicle_count env df (st\<lparr>raw_traffic_emissions := Some df\<rparr>)
      = (st\<lparr>raw_traffic_emissions := Some df\<rparr>,
         [Write OUT_VEHICLE_COUNT False, Log ERROR ''Failed to log vehicle count''])"
    by (simp add: log_vehicle_count_def)
  have code: "fst (main env st) = 0" by (simp add: m)
  have writes: "writes_tried (snd (snd (main env st)))
        = [(OUT_RAW, True), (OUT_VEHICLE_COUNT, False),
           (OUT_POLLUTION_SUMMARY, summary_write_ok env)]"
    by (simp add: m cnt tot quiet writes_tried_append process_vehicles_log_quiet
        save_pollution_summary_def Let_def)
  have logged: "Log ERROR ''Failed to log vehicle count'' \<in> set (snd (snd (main env st)))"
    by (simp add: m cnt)
  have count: "vehicle_count_log (fst (snd (main env st))) = vehicle_count_log st"
    by (simp add: m cnt tot save_pollution_summary_def Let_def)
  have summ: "\<exists>row. traffic_pollution_summary (fst (snd (main env st)))
            = Some ((case traffic_pollution_summary st of
                       None \<Rightarrow> [SummaryHeader] | Some ls \<Rightarrow> ls) @ [SummaryRow row])"
    if "summary_write_ok env"
    using that by (simp add: m cnt tot save_pollution_summary_def Let_def)
  from code writes logged count summ show ?thesis by blast
qed

theorem count_append_failure_is_not_fatal_witness:
  "\<not> count_append_ok env_count_fails
   \<and> fst (main env_count_fails stores_empty) = 0
   \<and> writes_tried (snd (snd (main env_count_fails stores_empty)))
       = [(OUT_RAW, True), (OUT_VEHICLE_COUNT, False), (OUT_POLLUTION_SUMMARY, True)]
   \<and> vehicle_count_log (fst (snd (main env_count_fails stores_empty))) = None"
proof -
  have ok: "raw_write_ok env_count_fails" and bad: "\<not> count_append_ok env_count_fails"
    and sok: "summary_write_ok env_count_fails"
    by (simp_all add: env_count_fails_def env_ok_def)
  have tot: "total_pollutants [row_valid] = Some (3.6, 4.8, 0.3, 660)"
    by (simp add: total_pollutants_def pollutant_def row_valid_def)
  have raw: "(OUT_RAW, True) \<in> set (writes_tried (snd (snd (main env_count_fails stores_empty))))"
    by (simp add: main_completed [OF fetch_env_count_fails process_vehicles_env_count_fails
          row_valid_not_empty ok] process_vehicles_log_def)
  from count_append_failure_is_not_fatal [OF raw bad] sok bad show ?thesis
    by (simp add: stores_empty_def)
qed

subsection \<open>The exit code\<close>

lemma fetch_traffic_data_exit_iff:
  "(\<exists>c tr. fetch_traffic_data env = (Exit c, tr)) \<longleftrightarrow>
     (\<exists>tr. fetch_loop (http_get env) [0..<max_retries] = (Exit 1, tr))
     \<or> (\<exists>content tr. fetch_loop (http_get env) [0..<max_retries] = (Return (Some content), tr)
           \<and> (case parse_feed env content of
                 None \<Rightarrow> True
               | Some feed \<Rightarrow> filter (\<lambda>e. vehicle e \<noteq> None) feed = []))"
  unfolding fetch_traffic_data_def fetch_loop_range Let_def
  by (auto split: http_result.splits option.splits)

lemma fetch_traffic_data_ignores_appends:
  "fetch_traffic_data (env\<lparr>count_append_ok := a, summary_write_ok := b\<rparr>) = fetch_traffic_data env"
  by (simp add: fetch_traffic_data_def split: prod.splits outcome.splits option.splits)

lemma exit_code_ignores_appends:
  "fst (main (env\<lparr>count_append_ok := a, summary_write_ok := b\<rparr>) st) = fst (main env st)"
proof -
  let ?env = "env\<lparr>count_append_ok := a, summary_write_ok := b\<rparr>"
  have z: "utcoffset ?env = utcoffset env" and w: "raw_write_ok ?env = raw_write_ok env"
    by simp_all
  show ?thesis
  proof (cases env rule: main_cases)
    case (fetch_exit c tr)
    then have "fetch_traffic_data ?env = (Exit c, tr)"
      by (simp add: fetch_traffic_data_ignores_appends)
    from main_fetch_exit [OF this, of st] main_fetch_exit [OF fetch_exit, of st]
    show ?thesis by simp
  next
    case (raised es tr x)
    from raised(1) have f: "fetch_traffic_data ?env = (Return es, tr)"
      by (simp add: fetch_traffic_data_ignores_appends)
    from raised(2) have "process_vehicles (utcoffset ?env) es = Inl x"
      by simp
    from main_raised [OF f this, of st] main_raised [OF raised, of st]
    show ?thesis by simp
  next
    case (no_rows es tr k)
    from no_rows(1) have f: "fetch_traffic_data ?env = (Return es, tr)"
      by (simp add: fetch_traffic_data_ignores_appends)
    from no_rows(2) have "process_vehicles (utcoffset ?env) es = Inr ([], k)"
      by simp
    from main_no_rows [OF f this, of st] main_no_rows [OF no_rows, of st]
    show ?thesis by simp
  next
    case (raw_failed es tr df k)
    from raw_failed(1) have f: "fetch_traffic_data ?env = (Return es, tr)"
      by (simp add: fetch_traffic_data_ignores_appends)
    from raw_failed(2) have pv: "process_vehicles (utcoffset ?env) es = Inr (df, k)"
      by simp
    from raw_failed(4) have "\<not> raw_write_ok ?env" by simp
    from main_raw_failed [OF f pv raw_failed(3) this, of st] main_raw_failed [OF raw_failed, of st]
    show ?thesis by simp
  next
    case (completed es tr df k)
    from completed(1) have f: "fetch_traffic_data ?env = (Return es, tr)"
      by (simp add: fetch_traffic_data_ignores_appends)
    from completed(2) have pv: "process_vehicles (utcoffset ?env) es = Inr (df, k)"
      by simp
    from completed(4) have "raw_write_ok ?env" by simp
    from main_completed [OF f pv completed(3) this, of st] main_completed [OF completed, of st]
    show ?thesis by simp
  qed
qed

text \<open>
  The exit code in every run: it is 1 exactly when the fetch fails, or the payload
  does not parse or holds no vehicle, or \<open>process_vehicles\<close> raises, or no row remains
  after validation, or the raw write fails; it is 0 otherwise, and it is the same
  whatever the outcome of the two appends.
\<close>

lemma main_exit_code_cases:
  "fst (main env st)
     = (if (\<exists>tr. fetch_loop (http_get env) [0..<max_retries] = (Exit 1, tr))
           \<or> (\<exists>content tr. fetch_loop (http_get env) [0..<max_retries]
                   = (Return (Some content), tr)
                 \<and> (case parse_feed env content of
                       None \<Rightarrow> True
                     | Some feed \<Rightarrow> filter (\<lambda>e. vehicle e \<noteq> None) feed = []))
           \<or> (\<exists>es tr x. fetch_traffic_data env = (Return es, tr)
                 \<and> process_vehicles (utcoffset env) es = Inl x)
           \<or> (\<exists>es tr k. fetch_traffic_data env = (Return es, tr)
                 \<and> process_vehicles (utcoffset env) es = Inr ([], k))
           \<or> \<not> raw_write_ok env
        then 1 else 0)"
proof -
  let ?fetch_fails = "(\<exists>tr. fetch_loop (http_get env) [0..<max_retries] = (Exit 1, tr))
           \<or> (\<exists>content tr. fetch_loop (http_get env) [0..<max_retries]
                   = (Return (Some content), tr)
                 \<and> (case parse_feed env content of
                       None \<Rightarrow> True
                     | Some feed \<Rightarrow> filter (\<lambda>e. vehicle e \<noteq> None) feed = []))"
  let ?raises = "\<exists>es tr x. fetch_traffic_data env = (Return es, tr)
                 \<and> process_vehicles (utcoffset env) es = Inl x"
  let ?no_rows = "\<exists>es tr k. fetch_traffic_data env = (Return es, tr)
                 \<and> process_vehicles (utcoffset env) es = Inr ([], k)"
  have "fst (main env st)
      = (if ((?fetch_fails \<or> ?raises) \<or> ?no_rows) \<or> \<not> raw_write_ok env then 1 else 0)"
  proof (cases env rule: main_cases)
    case (fetch_exit c tr)
    then have "?fetch_fails" using fetch_traffic_data_exit_iff [of env] by blast
    with main_fetch_exit [OF fetch_exit, of st] show ?thesis by simp
  next
    case (raised es tr x)
    then have "?raises" by blast
    with main_raised [OF raised, of st] show ?thesis by simp
  next
    case (no_rows es tr k)
    then have "?no_rows" by blast
    with main_no_rows [OF no_rows, of st] show ?thesis by simp
  next
    case (raw_failed es tr df k)
    with main_raw_failed [OF raw_failed, of st] show ?thesis by simp
  next
    case (completed es tr df k)
    from completed(1) have "\<not> (\<exists>c tr. fetch_traffic_data env = (Exit c, tr))" by simp
    then have a: "\<not> ?fetch_fails" using fetch_traffic_data_exit_iff [of env] by blast
    from completed(1,2) have b: "\<not> ?raises" by auto
    from completed(1,2,3) have c: "\<not> ?no_rows" by auto
    from a b c completed(4) main_completed [OF completed, of st] show ?thesis by simp
  qed
  then show ?thesis by (simp only: disj_assoc)
qed

text \<open>
  C7. The claim: the exit code is 1 exactly when the fetch fails, the decoding fails,
  no valid record remains or the raw write fails. The code: on the feed of a valid
  vehicle followed by a vehicle whose timestamp is \<open>2 ^ 63\<close> the run exits with 1,
  through the handler \<open>except Exception\<close> of \<open>main\<close>, although the fetch succeeded,
  the feed decoded to two vehicles, one of them is a valid record, and the raw write
  was not reached and would not have failed. \<open>process_vehicles\<close> raised, which the
  claim says validation never does.
\<close>

theorem main_exits_1_when_validation_raises:
  "fst (main env_overflow stores_empty) = 1
   \<and> fetch_traffic_data env_overflow
       = (Return [entity_valid, entity_overflow],
          [Request 0, Log INFO ''API request successful'',
           Log INFO ''Fetched vehicles from OTD feed''])
   \<and> process_entity (utcoffset env_overflow) entity_valid = Inr (Some row_valid)
   \<and> process_vehicles (utcoffset env_overflow) [entity_valid, entity_overflow]
       = Inl OverflowError
   \<and> raw_write_ok env_overflow
   \<and> \<not> ((\<exists>tr. fetch_loop (http_get env_overflow) [0..<max_retries] = (Exit 1, tr))
        \<or> (\<exists>content tr. fetch_loop (http_get env_overflow) [0..<max_retries]
                = (Return (Some content), tr)
              \<and> (case parse_feed env_overflow content of
                    None \<Rightarrow> True
                  | Some feed \<Rightarrow> filter (\<lambda>e. vehicle e \<noteq> None) feed = []))
        \<or> (\<exists>es tr k. fetch_traffic_data env_overflow = (Return es, tr)
              \<and> process_vehicles (utcoffset env_overflow) es = Inr ([], k))
        \<or> \<not> raw_write_ok env_overflow)"
proof -
  note pv = process_vehicles_env_overflow
  have pe: "process_entity (utcoffset env_overflow) entity_valid = Inr (Some row_valid)"
    by (simp only: utcoffset_examples process_entity_valid)
  have code: "fst (main env_overflow stores_empty) = 1"
    by (simp add: main_raised [OF fetch_env_overflow pv])
  have ok: "raw_write_ok env_overflow"
    by (simp add: env_overflow_def env_ok_def)
  have "\<not> (\<exists>c tr. fetch_traffic_data env_overflow = (Exit c, tr))"
    by (simp add: fetch_env_overflow)
  then have no_exit: "\<not> ((\<exists>tr. fetch_loop (http_get env_overflow) [0..<max_retries] = (Exit 1, tr))
        \<or> (\<exists>content tr. fetch_loop (http_get env_overflow) [0..<max_retries]
                = (Return (Some content), tr)
              \<and> (case parse_feed env_overflow content of
                    None \<Rightarrow> True
                  | Some feed \<Rightarrow> filter (\<lambda>e. vehicle e \<noteq> None) feed = [])))"
    using fetch_traffic_data_exit_iff [of env_overflow] by blast
  have some: "\<not> (\<exists>es tr k. fetch_traffic_data env_overflow = (Return es, tr)
              \<and> process_vehicles (utcoffset env_overflow) es = Inr ([], k))"
    by (simp add: fetch_env_overflow pv)
  from code fetch_env_overflow pe pv ok no_exit some show ?thesis
    by blast
qed

end
